theory Spec2Isabelle
  imports Complex_Main "HOL-Library.AList"
begin

section \<open>Numbers\<close>

text \<open>
  A finite JavaScript number is modelled as a real: the rounding and the overflow of IEEE
  doubles are outside the model.  Where the code can read a key that an object does not
  have, the value read is \<open>undefined\<close> and every arithmetic result computed from it is NaN;
  such numbers are modelled as \<open>real option\<close>, with \<open>None\<close> for NaN.
\<close>

type_synonym num = "real option"

definition lift2 :: "(real \<Rightarrow> real \<Rightarrow> real) \<Rightarrow> num \<Rightarrow> num \<Rightarrow> num" where
  "lift2 f a b = (case a of None \<Rightarrow> None | Some x \<Rightarrow> (case b of None \<Rightarrow> None | Some y \<Rightarrow> Some (f x y)))"

definition gt0 :: "num \<Rightarrow> bool" where
  \<comment> \<open>\<open>x > 0\<close>; every comparison with NaN is false.\<close>
  "gt0 a = (case a of None \<Rightarrow> False | Some x \<Rightarrow> x > 0)"

definition Math_round :: "real \<Rightarrow> int" where
  \<comment> \<open>\<open>Math.round\<close>: the nearest integer, a tie going up.\<close>
  "Math_round x = \<lfloor>x + 1 / 2\<rfloor>"

section \<open>Health score (src/lib/health-score.ts)\<close>

datatype Band = thriving | healthy | stable | concerning | critical

type_synonym Breakpoints = "(real \<times> real) list"

record HealthScoreInput =
  tournament_yoy_pct :: real
  entry_yoy_pct :: real
  avg_attendance :: real
  retention_rate :: real
  monthly_momentum :: "real list"
  us_concentration_pct :: real
  country_count :: real
  youth_pct :: real

definition DEFAULT_WEIGHTS :: "(string \<times> real) list" where
  "DEFAULT_WEIGHTS =
    [(''growth'', 25 / 100), (''attendance'', 20 / 100), (''retention'', 20 / 100),
     (''momentum'', 15 / 100), (''diversity'', 10 / 100), (''youth'', 10 / 100)]"

definition DEFAULT_BREAKPOINTS :: "(string \<times> Breakpoints) list" where
  "DEFAULT_BREAKPOINTS =
    [(''growth'', [(-20, 0), (0, 50), (20, 100)]),
     (''attendance'', [(15, 0), (20, 55), (23, 85), (25, 100)]),
     (''retention'', [(20, 0), (30, 50), (42, 85), (50, 100)]),
     (''momentum'', [(-15, 0), (0, 50), (15, 100)]),
     (''diversity'', [(50, 100), (70, 50), (90, 0)]),
     (''youth'', [(5, 0), (13, 50), (30, 100)])]"

definition clamp :: "real \<Rightarrow> real" where
  \<comment> \<open>\<open>clamp(value, min = 0, max = 100)\<close>, only ever called with the default bounds.\<close>
  "clamp v = max 0 (min 100 v)"

definition round2 :: "real \<Rightarrow> real" where
  "round2 v = real_of_int (Math_round (v * 100)) / 100"

text \<open>
  The \<open>for\<close> loop of \<open>interpolate\<close> over the consecutive pairs of the list; \<open>None\<close> when
  the loop ends without returning.  Where the loop returns, the two inputs of the pair
  differ (\<open>interpolate_loop_divisor\<close> below), so the quotient is one of reals.
\<close>

fun interpolate_loop :: "real \<Rightarrow> Breakpoints \<Rightarrow> real option" where
  "interpolate_loop v ((x0, y0) # (x1, y1) # rest) =
     (if v \<ge> x0 \<and> v \<le> x1
      then (let t = (v - x0) / (x1 - x0) in Some (clamp (y0 + t * (y1 - y0))))
      else interpolate_loop v ((x1, y1) # rest))"
| "interpolate_loop v [p] = None"
| "interpolate_loop v [] = None"

definition interpolate :: "real \<Rightarrow> Breakpoints \<Rightarrow> real" where
  "interpolate v breakpoints =
     (if length breakpoints = 0 then 0
      else if v \<le> fst (hd breakpoints) then clamp (snd (hd breakpoints))
      else if v \<ge> fst (last breakpoints) then clamp (snd (last breakpoints))
      else (case interpolate_loop v breakpoints of
              Some r \<Rightarrow> r
            | None \<Rightarrow> clamp (snd (last breakpoints))))"

definition getBand :: "real \<Rightarrow> Band" where
  "getBand score =
     (if score \<ge> 80 then thriving
      else if score \<ge> 65 then healthy
      else if score \<ge> 50 then stable
      else if score \<ge> 35 then concerning
      else critical)"

text \<open>Strict ascent of a breakpoint list by input value.\<close>

definition ascending :: "Breakpoints \<Rightarrow> bool" where
  "ascending bp = sorted_wrt (<) (map fst bp)"

definition lerp :: "real \<times> real \<Rightarrow> real \<times> real \<Rightarrow> real \<Rightarrow> real" where
  \<comment> \<open>The point at \<open>v\<close> of the line through two breakpoints.\<close>
  "lerp p q v = snd p + ((v - fst p) / (fst q - fst p)) * (snd q - snd p)"


subsection \<open>computeHealthScore\<close>

definition spread :: "(string \<times> 'v) list \<Rightarrow> (string \<times> 'v) list \<Rightarrow> (string \<times> 'v) list" where
  \<comment> \<open>\<open>{ ...defaults, ...custom }\<close>: an entry of \<open>custom\<close> replaces the value of a key that is
      already there, in place, and is appended otherwise.  An absent \<open>custom\<close> is \<open>[]\<close>.
      The keys stay distinct; their order, which JavaScript changes for keys that are array
      indices, has no part in a sum of reals.\<close>
  "spread defaults custom = fold (\<lambda>(k, v). AList.update k v) custom defaults"

definition breakpointsOf :: "(string \<times> Breakpoints) list \<Rightarrow> string \<Rightarrow> Breakpoints" where
  \<comment> \<open>\<open>breakpoints.growth\<close> and the like; the six names are keys of the defaults, hence of
      every merged map, and \<open>None\<close> does not occur there.\<close>
  "breakpointsOf bps k = (case map_of bps k of Some b \<Rightarrow> b | None \<Rightarrow> [])"

definition growthRaw :: "HealthScoreInput \<Rightarrow> real" where
  "growthRaw input = (tournament_yoy_pct input + entry_yoy_pct input) / 2"

definition momentumRaw :: "HealthScoreInput \<Rightarrow> real" where
  "momentumRaw input =
     (if length (monthly_momentum input) > 0
      then sum_list (monthly_momentum input) / real (length (monthly_momentum input))
      else 0)"

definition diversityRaw :: "HealthScoreInput \<Rightarrow> (string \<times> Breakpoints) list \<Rightarrow> real" where
  "diversityRaw input breakpoints =
     (let usScore = interpolate (us_concentration_pct input) (breakpointsOf breakpoints ''diversity'');
          countryScore = min 100 (country_count input * (333 / 100))
      in (7 / 10) * usScore + (3 / 10) * countryScore)"

definition componentScores :: "HealthScoreInput \<Rightarrow> (string \<times> Breakpoints) list \<Rightarrow> (string \<times> real) list" where
  "componentScores input breakpoints =
    [(''growth'', interpolate (growthRaw input) (breakpointsOf breakpoints ''growth'')),
     (''attendance'', interpolate (avg_attendance input) (breakpointsOf breakpoints ''attendance'')),
     (''retention'', interpolate (retention_rate input) (breakpointsOf breakpoints ''retention'')),
     (''momentum'', interpolate (momentumRaw input) (breakpointsOf breakpoints ''momentum'')),
     (''diversity'', clamp (diversityRaw input breakpoints)),
     (''youth'', interpolate (youth_pct input) (breakpointsOf breakpoints ''youth''))]"

definition componentRawValues :: "HealthScoreInput \<Rightarrow> (string \<times> Breakpoints) list \<Rightarrow> (string \<times> real) list" where
  "componentRawValues input breakpoints =
    [(''growth'', growthRaw input),
     (''attendance'', avg_attendance input),
     (''retention'', retention_rate input),
     (''momentum'', momentumRaw input),
     (''diversity'', diversityRaw input breakpoints),
     (''youth'', youth_pct input)]"

record ComponentScore =
  score :: num
  weight :: real
  raw_value :: num

record HealthScoreResult =
  composite_score :: num
  band :: Band
  components :: "(string \<times> ComponentScore) list"
  sensitivity :: "(string \<times> num) list"
  methodology_version :: int

definition weighted :: "(string \<Rightarrow> num) \<Rightarrow> (string \<times> real) list \<Rightarrow> num" where
  \<comment> \<open>\<open>Object.keys(weights).reduce((sum, k) => sum + s[k] * weights[k], 0)\<close>; the entries
      of \<open>weights\<close> are its keys, in order, each with its value.\<close>
  "weighted s weights = fold (\<lambda>(k, w) sum. lift2 (+) sum (lift2 (*) (s k) (Some w))) weights (Some 0)"

definition nudgeUp :: "(string \<Rightarrow> num) \<Rightarrow> string \<Rightarrow> string \<Rightarrow> num" where
  "nudgeUp s key k = (if k = key then lift2 min (Some 100) (lift2 (+) (s k) (Some 10)) else s k)"

definition nudgeDown :: "(string \<Rightarrow> num) \<Rightarrow> string \<Rightarrow> string \<Rightarrow> num" where
  "nudgeDown s key k = (if k = key then lift2 max (Some 0) (lift2 (-) (s k) (Some 10)) else s k)"

definition deltas :: "(string \<Rightarrow> num) \<Rightarrow> (string \<times> real) list \<Rightarrow> (string \<times> num) list" where
  "deltas s weights =
     map (\<lambda>(key, w).
            (key, map_option abs (lift2 (-) (weighted (nudgeUp s key) weights)
                                            (weighted (nudgeDown s key) weights))))
         weights"

definition totalDelta :: "(string \<times> num) list \<Rightarrow> num" where
  "totalDelta ds = fold (\<lambda>(k, d) sum. lift2 (+) sum d) ds (Some 0)"

definition sensitivityOf :: "(string \<times> num) list \<Rightarrow> (string \<times> num) list" where
  "sensitivityOf ds =
     map (\<lambda>(key, d).
            (key, if gt0 (totalDelta ds)
                  then map_option round2 (lift2 (*) (lift2 (/) d (totalDelta ds)) (Some 100))
                  else Some 0))
         ds"

text \<open>
  The \<open>label\<close> of a component, a formatted string, is left out of \<open>ComponentScore\<close>.
  \<open>customWeights\<close> and \<open>customBreakpoints\<close> are the entries of the optional override
  objects.  \<open>getBand\<close> of NaN is \<open>critical\<close>, every comparison being false.
\<close>

definition computeHealthScore ::
  "HealthScoreInput \<Rightarrow> int \<Rightarrow> (string \<times> real) list \<Rightarrow> (string \<times> Breakpoints) list \<Rightarrow> HealthScoreResult" where
  "computeHealthScore input methodologyVersion customWeights customBreakpoints =
     (let weights = spread DEFAULT_WEIGHTS customWeights;
          breakpoints = spread DEFAULT_BREAKPOINTS customBreakpoints;
          scores = map_of (componentScores input breakpoints);
          raws = map_of (componentRawValues input breakpoints);
          compositeScore = weighted scores weights;
          ds = deltas scores weights
      in \<lparr> composite_score = map_option (round2 \<circ> clamp) compositeScore,
           band = (case compositeScore of Some c \<Rightarrow> getBand c | None \<Rightarrow> critical),
           components = map (\<lambda>(key, w). (key, \<lparr> score = map_option round2 (scores key), weight = w,
                                                  raw_value = map_option round2 (raws key) \<rparr>)) weights,
           sensitivity = sensitivityOf ds,
           methodology_version = methodologyVersion \<rparr>)"

section \<open>Forecast (src/unnamed/part_001, the seasonal ratio extrapolation)\<close>

record TrendReference =
  slope :: real
  intercept :: real
  r_squared :: real
  projected_value :: int

record ForecastResult =
  target_year :: int
  months_of_data :: int
  projected_tournaments :: int
  projected_entries :: int
  ci_68_low_tournaments :: int
  ci_68_high_tournaments :: int
  ci_95_low_tournaments :: int
  ci_95_high_tournaments :: int
  ci_68_low_entries :: int
  ci_68_high_entries :: int
  ci_95_low_entries :: int
  ci_95_high_entries :: int
  method_tag :: string
  trend_reference :: "TrendReference option"

record AnnualData =
  year :: int
  tournaments :: real
  entries :: real

record MonthlyData =
  myear :: int
  month :: int
  event_count :: real

record MonthlyWeights =
  tournament_weights :: "real list"
  entry_weights :: "real list"
  weight_std :: "real list"

definition mean :: "real list \<Rightarrow> real" where
  "mean values = (if length values = 0 then 0 else sum_list values / real (length values))"

definition stddev :: "real list \<Rightarrow> real" where
  "stddev values =
     (if length values < 2 then 0
      else (let m = mean values;
                variance = sum_list (map (\<lambda>v. (v - m) ^ 2) values) / real (length values)
            in sqrt variance))"

text \<open>
  \<open>buildMonthlyLookup\<close>: a year is given twelve zeros at its first record, and each record
  adds its count at index \<open>month - 1\<close>.  A write at an index outside \<open>0..11\<close> does not
  touch the twelve slots (below 0 it sets a property that is no element; from 12 on it
  extends the array past them), and the model drops it: the model is the code for every
  read of the slots \<open>0..11\<close>, which are all the reads of \<open>computeMonthlyWeights\<close>, and
  those of \<open>computeForecast\<close> when \<open>completedMonths\<close> is at most 12.
\<close>

definition addMonthly :: "MonthlyData \<Rightarrow> (int \<rightharpoonup> real list) \<Rightarrow> (int \<rightharpoonup> real list)" where
  "addMonthly d lookup =
     (let arr = (case lookup (myear d) of None \<Rightarrow> replicate 12 0 | Some a \<Rightarrow> a);
          i = month d - 1
      in lookup(myear d \<mapsto>
           (if 0 \<le> i \<and> i < 12 then arr[nat i := arr ! nat i + event_count d] else arr)))"

definition buildMonthlyLookup :: "MonthlyData list \<Rightarrow> (int \<rightharpoonup> real list)" where
  "buildMonthlyLookup monthlyData = fold addMonthly monthlyData Map.empty"

definition buildAnnualLookup :: "AnnualData list \<Rightarrow> (int \<rightharpoonup> AnnualData)" where
  "buildAnnualLookup annualData = fold (\<lambda>d lookup. lookup(year d \<mapsto> d)) annualData Map.empty"

subsection \<open>computeMonthlyWeights\<close>

definition DEFAULT_REFERENCE_YEARS :: "int list" where
  "DEFAULT_REFERENCE_YEARS = [2019, 2022, 2023, 2024, 2025]"

text \<open>
  One pass of the loop over the reference years: the two arrays of twelve fraction lists,
  each extended by a \<open>push\<close> for every month unless the year is skipped.
\<close>

definition pushYear ::
  "(int \<rightharpoonup> AnnualData) \<Rightarrow> (int \<rightharpoonup> real list) \<Rightarrow> int
    \<Rightarrow> real list list \<times> real list list \<Rightarrow> real list list \<times> real list list" where
  "pushYear annualByYear monthlyByYear y acc =
     (case annualByYear y of
        None \<Rightarrow> acc
      | Some annual \<Rightarrow>
         (case monthlyByYear y of
            None \<Rightarrow> acc
          | Some monthly \<Rightarrow>
             if tournaments annual = 0 then acc
             else (map (\<lambda>m. fst acc ! m @ [monthly ! m / tournaments annual]) [0..<12],
                   map (\<lambda>m. snd acc ! m @
                          [if entries annual > 0 then monthly ! m / tournaments annual else 0])
                       [0..<12])))"

definition collectFractions ::
  "AnnualData list \<Rightarrow> MonthlyData list \<Rightarrow> int list \<Rightarrow> real list list \<times> real list list" where
  \<comment> \<open>\<open>tournamentFractions\<close> and \<open>entryFractions\<close> when the loop has ended.\<close>
  "collectFractions annualData monthlyData referenceYears =
     fold (pushYear (buildAnnualLookup annualData) (buildMonthlyLookup monthlyData))
          referenceYears (replicate 12 [], replicate 12 [])"

definition computeMonthlyWeights :: "AnnualData list \<Rightarrow> MonthlyData list \<Rightarrow> int list \<Rightarrow> MonthlyWeights" where
  "computeMonthlyWeights annualData monthlyData referenceYears =
     (let fr = collectFractions annualData monthlyData referenceYears
      in \<lparr> tournament_weights = map mean (fst fr),
           entry_weights = map mean (snd fr),
           weight_std = map stddev (fst fr) \<rparr>)"

subsection \<open>computeTrendLine\<close>

datatype Metric = Tournaments | Entries

definition metricOf :: "Metric \<Rightarrow> AnnualData \<Rightarrow> real" where
  "metricOf metric d = (case metric of Tournaments \<Rightarrow> tournaments d | Entries \<Rightarrow> entries d)"

definition eligibleYears :: "AnnualData list \<Rightarrow> AnnualData list" where
  \<comment> \<open>\<open>Array.prototype.sort\<close> is stable, as \<open>sort_key\<close> is.\<close>
  "eligibleYears annualData =
     sort_key year (take 4 (sort_key (\<lambda>d. - year d)
        (filter (\<lambda>d. year d \<noteq> 2020 \<and> year d \<noteq> 2021) annualData)))"

definition computeTrendLine :: "AnnualData list \<Rightarrow> Metric \<Rightarrow> int \<Rightarrow> TrendReference" where
  "computeTrendLine annualData metric targetYear =
     (let eligible = eligibleYears annualData
      in if length eligible < 2
         then \<lparr> slope = 0, intercept = 0, r_squared = 0, projected_value = 0 \<rparr>
         else
          (let xs = map (\<lambda>d. real_of_int (year d)) eligible;
               ys = map (metricOf metric) eligible;
               xMean = mean xs;
               yMean = mean ys;
               numerator = sum_list (map (\<lambda>(x, y). (x - xMean) * (y - yMean)) (zip xs ys));
               denominator = sum_list (map (\<lambda>x. (x - xMean) ^ 2) xs);
               slope = (if denominator \<noteq> 0 then numerator / denominator else 0);
               intercept = yMean - slope * xMean;
               ssRes = sum_list (map (\<lambda>(x, y). (y - (slope * x + intercept)) ^ 2) (zip xs ys));
               ssTot = sum_list (map (\<lambda>y. (y - yMean) ^ 2) ys);
               r_squared = (if ssTot \<noteq> 0 then 1 - ssRes / ssTot else 0);
               projected_value = Math_round (slope * real_of_int targetYear + intercept)
           in \<lparr> slope = slope, intercept = intercept, r_squared = r_squared,
                projected_value = projected_value \<rparr>))"

subsection \<open>computeForecast\<close>

definition emptyResult :: "int \<Rightarrow> int \<Rightarrow> ForecastResult" where
  "emptyResult targetYear completedMonths =
     \<lparr> target_year = targetYear, months_of_data = completedMonths,
       projected_tournaments = 0, projected_entries = 0,
       ci_68_low_tournaments = 0, ci_68_high_tournaments = 0,
       ci_95_low_tournaments = 0, ci_95_high_tournaments = 0,
       ci_68_low_entries = 0, ci_68_high_entries = 0,
       ci_95_low_entries = 0, ci_95_high_entries = 0,
       method_tag = ''seasonal_ratio'', trend_reference = None \<rparr>"

definition cumulativeWeight :: "real list \<Rightarrow> int \<Rightarrow> real" where
  \<comment> \<open>\<open>ws.slice(0, completedMonths).reduce((sum, w) => sum + w, 0)\<close>, read only where
      \<open>completedMonths\<close> is at least 2.\<close>
  "cumulativeWeight ws completedMonths = sum_list (take (nat completedMonths) ws)"

definition backTestYears :: "AnnualData list \<Rightarrow> int \<Rightarrow> int list" where
  "backTestYears annualData targetYear =
     filter (\<lambda>y. y \<noteq> 2020 \<and> y \<noteq> 2021 \<and> y \<noteq> targetYear) (map year annualData)"

text \<open>One pass of the back-test loop over \<open>(tournamentRatios, entryRatios)\<close>.\<close>

definition backTestStep ::
  "(int \<rightharpoonup> AnnualData) \<Rightarrow> (int \<rightharpoonup> real list) \<Rightarrow> int \<Rightarrow> real \<Rightarrow> real \<Rightarrow> int
    \<Rightarrow> real list \<times> real list \<Rightarrow> real list \<times> real list" where
  "backTestStep annualByYear monthlyByYear completedMonths cumulativeTournamentWeight
       cumulativeEntryWeight y acc =
     (case annualByYear y of
        None \<Rightarrow> acc
      | Some annual \<Rightarrow>
         (case monthlyByYear y of
            None \<Rightarrow> acc
          | Some monthly \<Rightarrow>
             if tournaments annual = 0 then acc
             else
              (let ytdHistorical = sum_list (take (nat completedMonths) monthly)
               in if ytdHistorical = 0 then acc
                  else
                   (let projectedHistorical = ytdHistorical / cumulativeTournamentWeight;
                        ratio = tournaments annual / projectedHistorical;
                        tournamentRatios = fst acc @ [ratio]
                    in if entries annual > 0
                       then (let projectedHistoricalEntries = ytdHistorical / cumulativeEntryWeight;
                                 entryRatio = entries annual / projectedHistoricalEntries
                             in (tournamentRatios, snd acc @ [entryRatio]))
                       else (tournamentRatios, snd acc)))))"

definition backTestRatios ::
  "AnnualData list \<Rightarrow> MonthlyData list \<Rightarrow> int \<Rightarrow> int \<Rightarrow> real \<Rightarrow> real \<Rightarrow> real list \<times> real list" where
  "backTestRatios annualData monthlyData targetYear completedMonths cumT cumE =
     fold (backTestStep (buildAnnualLookup annualData) (buildMonthlyLookup monthlyData)
             completedMonths cumT cumE)
          (backTestYears annualData targetYear) ([], [])"

definition relativeUncertainty :: "MonthlyWeights \<Rightarrow> int \<Rightarrow> real" where
  "relativeUncertainty monthlyWeights completedMonths =
     (let cumulativeWeightStd =
            sqrt (sum_list (map (\<lambda>s. s * s) (take (nat completedMonths) (weight_std monthlyWeights))))
      in cumulativeWeightStd / cumulativeWeight (tournament_weights monthlyWeights) completedMonths)"

definition ciBand :: "real \<Rightarrow> real list \<Rightarrow> real \<Rightarrow> int \<times> int \<times> int \<times> int" where
  \<comment> \<open>The four bounds \<open>(ci68Low, ci68High, ci95Low, ci95High)\<close> of one metric: the
      \<open>if (ratios.length >= 2) ... else ...\<close> that the code writes once for each metric.\<close>
  "ciBand projected ratios fallbackUncertainty =
     (if length ratios \<ge> 2
      then (let ratioMean = mean ratios; ratioStd = stddev ratios
            in (Math_round (projected * (ratioMean - ratioStd)),
                Math_round (projected * (ratioMean + ratioStd)),
                Math_round (projected * (ratioMean - 2 * ratioStd)),
                Math_round (projected * (ratioMean + 2 * ratioStd))))
      else (Math_round (projected * (1 - fallbackUncertainty)),
            Math_round (projected * (1 + fallbackUncertainty)),
            Math_round (projected * (1 - 2 * fallbackUncertainty)),
            Math_round (projected * (1 + 2 * fallbackUncertainty))))"

definition computeForecast ::
  "real \<Rightarrow> real \<Rightarrow> int \<Rightarrow> MonthlyWeights \<Rightarrow> AnnualData list \<Rightarrow> MonthlyData list \<Rightarrow> int
    \<Rightarrow> ForecastResult" where
  "computeForecast ytdTournaments ytdEntries completedMonths monthlyWeights annualData
       monthlyData targetYear =
     (if completedMonths < 2 then emptyResult targetYear completedMonths
      else
       (let cumulativeTournamentWeight =
              cumulativeWeight (tournament_weights monthlyWeights) completedMonths;
            cumulativeEntryWeight =
              cumulativeWeight (entry_weights monthlyWeights) completedMonths
        in if cumulativeTournamentWeight < 1 / 1000 \<or> cumulativeEntryWeight < 1 / 1000
           then emptyResult targetYear completedMonths
           else
            (let projectedTournaments = ytdTournaments / cumulativeTournamentWeight;
                 projectedEntries = ytdEntries / cumulativeEntryWeight;
                 ratios = backTestRatios annualData monthlyData targetYear completedMonths
                            cumulativeTournamentWeight cumulativeEntryWeight;
                 u = relativeUncertainty monthlyWeights completedMonths;
                 ciT = ciBand projectedTournaments (fst ratios) u;
                 ciE = ciBand projectedEntries (snd ratios) u;
                 trendRef = computeTrendLine annualData Tournaments targetYear
             in \<lparr> target_year = targetYear, months_of_data = completedMonths,
                  projected_tournaments = Math_round projectedTournaments,
                  projected_entries = Math_round projectedEntries,
                  ci_68_low_tournaments = fst ciT,
                  ci_68_high_tournaments = fst (snd ciT),
                  ci_95_low_tournaments = fst (snd (snd ciT)),
                  ci_95_high_tournaments = snd (snd (snd ciT)),
                  ci_68_low_entries = fst ciE,
                  ci_68_high_entries = fst (snd ciE),
                  ci_95_low_entries = fst (snd (snd ciE)),
                  ci_95_high_entries = snd (snd (snd ciE)),
                  method_tag = ''seasonal_ratio'', trend_reference = Some trendRef \<rparr>)))"

section \<open>Calibration (src/app/api/admin/observations/route.ts, the calibration handler)\<close>
















section \<open>The terms of the properties\<close>

subsection \<open>Trend line\<close>

text \<open>The records that the trend regression does not exclude, in the order given.\<close>

definition eligibleSet :: "AnnualData list \<Rightarrow> AnnualData list" where
  "eligibleSet annualData = filter (\<lambda>d. year d \<noteq> 2020 \<and> year d \<noteq> 2021) annualData"

subsection \<open>Monthly weights\<close>

text \<open>What the data says of a year and a month (index 0 for January), in the spec's terms.\<close>

definition monthCount :: "MonthlyData list \<Rightarrow> int \<Rightarrow> nat \<Rightarrow> real" where
  \<comment> \<open>The events recorded for the month; 0 when there is no record of it.\<close>
  "monthCount monthlyData y m =
     sum_list (map event_count (filter (\<lambda>d. myear d = y \<and> month d = int m + 1) monthlyData))"

definition hasMonthData :: "MonthlyData list \<Rightarrow> int \<Rightarrow> nat \<Rightarrow> bool" where
  "hasMonthData monthlyData y m = list_ex (\<lambda>d. myear d = y \<and> month d = int m + 1) monthlyData"

definition hasYearData :: "MonthlyData list \<Rightarrow> int \<Rightarrow> bool" where
  "hasYearData monthlyData y = list_ex (\<lambda>d. myear d = y) monthlyData"

definition annualRecord :: "AnnualData list \<Rightarrow> int \<Rightarrow> AnnualData option" where
  \<comment> \<open>The record that the data has of the year: the last one, should the list hold more
      than one of the year.\<close>
  "annualRecord annualData y = find (\<lambda>d. year d = y) (rev annualData)"

definition annualTournaments :: "AnnualData list \<Rightarrow> int \<Rightarrow> real" where
  \<comment> \<open>The annual tournament total of the year's record; 0 when the year has no record.\<close>
  "annualTournaments annualData y =
     (case annualRecord annualData y of None \<Rightarrow> 0 | Some a \<Rightarrow> tournaments a)"

definition annualEntries :: "AnnualData list \<Rightarrow> int \<Rightarrow> real" where
  "annualEntries annualData y =
     (case annualRecord annualData y of None \<Rightarrow> 0 | Some a \<Rightarrow> entries a)"

definition tournamentFraction :: "AnnualData list \<Rightarrow> MonthlyData list \<Rightarrow> nat \<Rightarrow> int \<Rightarrow> real" where
  "tournamentFraction annualData monthlyData m y =
     monthCount monthlyData y m / annualTournaments annualData y"

definition entryFraction :: "AnnualData list \<Rightarrow> MonthlyData list \<Rightarrow> nat \<Rightarrow> int \<Rightarrow> real" where
  "entryFraction annualData monthlyData m y =
     (if annualEntries annualData y > 0
      then monthCount monthlyData y m / annualTournaments annualData y else 0)"

definition yearCounted :: "AnnualData list \<Rightarrow> MonthlyData list \<Rightarrow> int \<Rightarrow> bool" where
  \<comment> \<open>The reference years that the code does not skip.\<close>
  "yearCounted annualData monthlyData y =
     (annualRecord annualData y \<noteq> None \<and> hasYearData monthlyData y \<and>
      annualTournaments annualData y \<noteq> 0)"

definition yearCountedAsStated :: "AnnualData list \<Rightarrow> MonthlyData list \<Rightarrow> nat \<Rightarrow> int \<Rightarrow> bool" where
  \<comment> \<open>The reference years that contribute to a month as C6 states it.\<close>
  "yearCountedAsStated annualData monthlyData m y =
     (annualRecord annualData y \<noteq> None \<and> hasMonthData monthlyData y m \<and>
      annualTournaments annualData y \<noteq> 0)"

subsection \<open>Back-test and confidence bands\<close>








definition average :: "real list \<Rightarrow> real" where
  "average xs = sum_list xs / real (length xs)"

definition populationStd :: "real list \<Rightarrow> real" where
  \<comment> \<open>The root of the mean squared deviation from the average, the divisor being the
      number of values.\<close>
  "populationStd xs = sqrt (sum_list (map (\<lambda>x. (x - average xs)\<^sup>2) xs) / real (length xs))"


subsection \<open>Health score\<close>

definition componentNames :: "string set" where
  "componentNames = {''growth'', ''attendance'', ''retention'', ''momentum'', ''diversity'', ''youth''}"

text \<open>The score of a component by its name; 0 for a name that is no component.\<close>

definition componentScoreOf :: "HealthScoreInput \<Rightarrow> (string \<times> Breakpoints) list \<Rightarrow> string \<Rightarrow> real" where
  "componentScoreOf input breakpoints k =
     (case map_of (componentScores input breakpoints) k of Some c \<Rightarrow> c | None \<Rightarrow> 0)"

definition mergedEntries :: "(string \<times> 'v) list \<Rightarrow> (string \<times> 'v) list \<Rightarrow> (string \<times> 'v) list" where
  \<comment> \<open>The defaults merged with overrides of their keys: each default key with the value
      that the overrides give it (the last, should they name the key more than once), or
      else with its own.\<close>
  "mergedEntries defaults overrides =
     map (\<lambda>(k, v). (k, case map_of (rev overrides) k of Some v' \<Rightarrow> v' | None \<Rightarrow> v)) defaults"

definition in_0_100 :: "num \<Rightarrow> bool" where
  \<comment> \<open>A number of the range 0 to 100; NaN is none.\<close>
  "in_0_100 a = (case a of None \<Rightarrow> False | Some x \<Rightarrow> 0 \<le> x \<and> x \<le> 100)"

definition sumValues :: "(string \<times> num) list \<Rightarrow> num" where
  "sumValues xs = foldr (\<lambda>(k, v) acc. lift2 (+) v acc) xs (Some 0)"

definition allZero :: "(string \<times> real) list \<Rightarrow> bool" where
  "allZero ws = list_all (\<lambda>(k, w). w = 0) ws"

subsection \<open>Calibration\<close>




section \<open>Sample inputs\<close>

definition W0 :: MonthlyWeights where
  "W0 = \<lparr> tournament_weights = [1 / 10, 1 / 10, 8 / 10], entry_weights = [1 / 10, 3 / 10, 6 / 10],
          weight_std = [0, 0, 0] \<rparr>"


definition yearWeights :: MonthlyWeights where
  "yearWeights =
     \<lparr> tournament_weights = [8 / 100, 8 / 100, 8 / 100, 8 / 100, 9 / 100, 9 / 100,
                               9 / 100, 9 / 100, 8 / 100, 8 / 100, 8 / 100, 8 / 100],
       entry_weights = [9 / 100, 9 / 100, 9 / 100, 10 / 100, 10 / 100, 8 / 100,
                          8 / 100, 8 / 100, 8 / 100, 7 / 100, 7 / 100, 7 / 100],
       weight_std = [3 / 100, 0, 0, 0, 0, 0, 4 / 100, 0, 0, 0, 0, 0] \<rparr>"


definition flatYears :: "AnnualData list" where
  "flatYears = [\<lparr> year = 2022, tournaments = 100, entries = 500 \<rparr>,
                \<lparr> year = 2023, tournaments = 100, entries = 700 \<rparr>]"

definition risingYears :: "AnnualData list" where
  "risingYears = [\<lparr> year = 2023, tournaments = 120, entries = 700 \<rparr>,
                  \<lparr> year = 2020, tournaments = 5, entries = 20 \<rparr>,
                  \<lparr> year = 2022, tournaments = 100, entries = 500 \<rparr>]"

definition sparseAnnual :: "AnnualData list" where
  "sparseAnnual = [\<lparr> year = 2019, tournaments = 100, entries = 500 \<rparr>,
                   \<lparr> year = 2022, tournaments = 100, entries = 500 \<rparr>]"

definition sparseMonthly :: "MonthlyData list" where
  "sparseMonthly = [\<lparr> myear = 2019, month = 1, event_count = 10 \<rparr>,
                    \<lparr> myear = 2019, month = 3, event_count = 10 \<rparr>,
                    \<lparr> myear = 2022, month = 1, event_count = 10 \<rparr>]"

definition referenceAnnual :: "AnnualData list" where
  "referenceAnnual = [\<lparr> year = 2019, tournaments = 100, entries = 500 \<rparr>,
                      \<lparr> year = 2021, tournaments = 80, entries = 100 \<rparr>,
                      \<lparr> year = 2022, tournaments = 100, entries = 500 \<rparr>,
                      \<lparr> year = 2018, tournaments = 90, entries = 0 \<rparr>,
                      \<lparr> year = 2023, tournaments = 0, entries = 5 \<rparr>,
                      \<lparr> year = 2024, tournaments = 300, entries = 0 \<rparr>]"

definition referenceMonthly :: "MonthlyData list" where
  "referenceMonthly = [\<lparr> myear = 2019, month = 1, event_count = 10 \<rparr>,
                       \<lparr> myear = 2019, month = 3, event_count = 20 \<rparr>,
                       \<lparr> myear = 2022, month = 1, event_count = 10 \<rparr>,
                       \<lparr> myear = 2018, month = 7, event_count = 5 \<rparr>,
                       \<lparr> myear = 2023, month = 3, event_count = 4 \<rparr>,
                       \<lparr> myear = 2024, month = 3, event_count = 50 \<rparr>,
                       \<lparr> myear = 2024, month = 3, event_count = 10 \<rparr>,
                       \<lparr> myear = 2025, month = 3, event_count = 9 \<rparr>]"





definition sampleInput :: HealthScoreInput where
  "sampleInput = \<lparr> tournament_yoy_pct = 10, entry_yoy_pct = 10, avg_attendance = 23,
                    retention_rate = 42, monthly_momentum = [5, 5, 5], us_concentration_pct = 70,
                    country_count = 30, youth_pct = 13 \<rparr>"

definition zeroWeights :: "(string \<times> real) list" where
  "zeroWeights = [(''growth'', 0), (''attendance'', 0), (''retention'', 0), (''momentum'', 0),
                  (''diversity'', 0), (''youth'', 0)]"

definition zeroWithExtra :: "(string \<times> real) list" where
  "zeroWithExtra = [(''growth'', 0), (''attendance'', 0), (''retention'', 0), (''momentum'', 0),
                    (''diversity'', 0), (''youth'', 0), (''foo'', 0)]"






section \<open>Properties of \<open>interpolate\<close>\<close>

lemma lerp_left: "lerp p q (fst p) = snd p"
  by (simp add: lerp_def)

lemma lerp_right: "fst p \<noteq> fst q \<Longrightarrow> lerp p q (fst q) = snd q"
  by (simp add: lerp_def)

lemma interpolate_loop_bracket:
  "ascending bp \<Longrightarrow> Suc i < length bp \<Longrightarrow> fst (bp ! i) \<le> v \<Longrightarrow> v \<le> fst (bp ! Suc i)
   \<Longrightarrow> interpolate_loop v bp = Some (clamp (lerp (bp ! i) (bp ! Suc i) v))"
proof (induction v bp arbitrary: i rule: interpolate_loop.induct)
  case (1 v x0 y0 x1 y1 rest)
  have asc_tl: "ascending ((x1, y1) # rest)" and x01: "x0 < x1"
    using "1.prems"(1) by (simp_all add: ascending_def)
  show ?case
  proof (cases "x0 \<le> v \<and> v \<le> x1")
    case True
    show ?thesis
    proof (cases i)
      case 0
      with True show ?thesis by (simp add: lerp_def)
    next
      case (Suc j)
      have "x1 \<le> fst (((x1, y1) # rest) ! j)"
      proof (cases j)
        case 0 then show ?thesis by simp
      next
        case (Suc k)
        with "1.prems"(1,2) \<open>i = Suc j\<close> have "x1 < fst (rest ! k)"
          by (auto simp: ascending_def)
        with Suc show ?thesis by simp
      qed
      with "1.prems"(3) Suc True have v1: "v = x1" and j1: "fst (((x1, y1) # rest) ! j) = x1" by auto
      have "j = 0"
      proof (rule ccontr)
        assume "j \<noteq> 0"
        then obtain k where "j = Suc k" by (cases j) auto
        with "1.prems"(1,2) \<open>i = Suc j\<close> have "x1 < fst (rest ! k)"
          by (auto simp: ascending_def)
        with j1 \<open>j = Suc k\<close> show False by simp
      qed
      with Suc have i1: "i = Suc 0" by simp
      have "lerp (x1, y1) (((x1, y1) # rest) ! Suc 0) x1 = y1"
        using lerp_left[of "(x1, y1)"] by simp
      moreover have "lerp (x0, y0) (x1, y1) x1 = y1"
        using lerp_right[of "(x0, y0)" "(x1, y1)"] x01 by simp
      ultimately show ?thesis using True v1 i1 by (simp add: lerp_def)
    qed
  next
    case False
    then have "i \<noteq> 0" using "1.prems"(3,4) by (cases i) auto
    then obtain j where ij: "i = Suc j" by (cases i) auto
    have "interpolate_loop v ((x1, y1) # rest) =
        Some (clamp (lerp (((x1, y1) # rest) ! j) (((x1, y1) # rest) ! Suc j) v))"
      using "1.IH"[OF False asc_tl, of j] "1.prems"(2,3,4) ij by simp
    with False ij show ?thesis by auto
  qed
qed simp_all


lemma bracket_exists:
  "2 \<le> length bp \<Longrightarrow> fst (hd bp) \<le> (v::real) \<Longrightarrow> v \<le> fst (last bp)
   \<Longrightarrow> \<exists>i. Suc i < length bp \<and> fst (bp ! i) \<le> v \<and> v \<le> fst (bp ! Suc i)"
proof (induction bp)
  case Nil
  then show ?case by simp
next
  case (Cons p bp)
  then obtain q rest where bp: "bp = q # rest" by (cases bp) auto
  show ?case
  proof (cases "v \<le> fst q")
    case True
    with Cons.prems bp have "Suc 0 < length (p # bp) \<and> fst ((p # bp) ! 0) \<le> v \<and> v \<le> fst ((p # bp) ! Suc 0)"
      by simp
    then show ?thesis by blast
  next
    case False
    with Cons.prems bp have "rest \<noteq> []" by auto
    with Cons.prems bp False have "\<exists>i. Suc i < length bp \<and> fst (bp ! i) \<le> v \<and> v \<le> fst (bp ! Suc i)"
      by (intro Cons.IH) (auto simp: Suc_le_eq)
    then obtain i where "Suc i < length bp \<and> fst (bp ! i) \<le> v \<and> v \<le> fst (bp ! Suc i)" by blast
    then have "Suc (Suc i) < length (p # bp) \<and> fst ((p # bp) ! Suc i) \<le> v \<and> v \<le> fst ((p # bp) ! Suc (Suc i))"
      by simp
    then show ?thesis by blast
  qed
qed

lemma ascending_hd_le_last: "ascending bp \<Longrightarrow> bp \<noteq> [] \<Longrightarrow> fst (hd bp) \<le> fst (last bp)"
  by (cases bp) (auto simp: ascending_def last_conv_nth dest: less_imp_le)

lemma ascending_hd_eq_last:
  "ascending bp \<Longrightarrow> bp \<noteq> [] \<Longrightarrow> fst (hd bp) = fst (last bp) \<Longrightarrow> hd bp = last bp"
  by (cases bp) (auto simp: ascending_def)

lemma interpolate_cases:
  "ascending bp \<Longrightarrow>
     interpolate x [] = 0 \<and>
     (bp \<noteq> [] \<and> x \<le> fst (hd bp) \<longrightarrow> interpolate x bp = clamp (snd (hd bp))) \<and>
     (bp \<noteq> [] \<and> x \<ge> fst (last bp) \<longrightarrow> interpolate x bp = clamp (snd (last bp))) \<and>
     (bp \<noteq> [] \<and> fst (hd bp) < x \<and> x < fst (last bp) \<longrightarrow>
        (\<exists>i. Suc i < length bp \<and> fst (bp ! i) \<le> x \<and> x \<le> fst (bp ! Suc i)) \<and>
        (\<forall>i. Suc i < length bp \<and> fst (bp ! i) \<le> x \<and> x \<le> fst (bp ! Suc i) \<longrightarrow>
             interpolate x bp = clamp (lerp (bp ! i) (bp ! Suc i) x)))"
proof (intro conjI impI allI)
  show "interpolate x [] = 0" by (simp add: interpolate_def)
next
  assume "bp \<noteq> [] \<and> x \<le> fst (hd bp)"
  then show "interpolate x bp = clamp (snd (hd bp))" by (simp add: interpolate_def)
next
  assume asc: "ascending bp" and h: "bp \<noteq> [] \<and> fst (last bp) \<le> x"
  show "interpolate x bp = clamp (snd (last bp))"
  proof (cases "x \<le> fst (hd bp)")
    case True
    with h ascending_hd_le_last[OF asc] have "fst (hd bp) = fst (last bp)" by simp
    with asc h have "hd bp = last bp" by (simp add: ascending_hd_eq_last)
    with True h show ?thesis by (simp add: interpolate_def)
  next
    case False
    with h show ?thesis by (simp add: interpolate_def)
  qed
next
  assume h: "bp \<noteq> [] \<and> fst (hd bp) < x \<and> x < fst (last bp)"
  then have "hd bp \<noteq> last bp" by auto
  with h have "2 \<le> length bp" by (cases bp) (auto simp: Suc_le_eq)
  with h show "\<exists>i. Suc i < length bp \<and> fst (bp ! i) \<le> x \<and> x \<le> fst (bp ! Suc i)"
    by (intro bracket_exists) auto
next
  fix i
  assume asc: "ascending bp" and h: "bp \<noteq> [] \<and> fst (hd bp) < x \<and> x < fst (last bp)"
    and i: "Suc i < length bp \<and> fst (bp ! i) \<le> x \<and> x \<le> fst (bp ! Suc i)"
  have "interpolate_loop x bp = Some (clamp (lerp (bp ! i) (bp ! Suc i) x))"
    using interpolate_loop_bracket[OF asc, of i x] i by simp
  with h show "interpolate x bp = clamp (lerp (bp ! i) (bp ! Suc i) x)"
    by (simp add: interpolate_def)
qed

text \<open>
  Whatever the order of the list, the loop of \<open>interpolate\<close> is entered with the value
  above the first input and below the last: it then returns, and the pair it returns at
  has its first input strictly below the value, so that the quotient is never \<open>0/0\<close> and
  the fallback after the loop is not reached.
\<close>

lemma interpolate_loop_divisor:
  "fst (hd bp) < v \<Longrightarrow> interpolate_loop v bp = Some r \<Longrightarrow>
   \<exists>i. Suc i < length bp \<and> fst (bp ! i) < v \<and> v \<le> fst (bp ! Suc i) \<and>
       r = clamp (lerp (bp ! i) (bp ! Suc i) v)"
proof (induction v bp rule: interpolate_loop.induct)
  case (1 v x0 y0 x1 y1 rest)
  show ?case
  proof (cases "x0 \<le> v \<and> v \<le> x1")
    case True
    with "1.prems" have "Suc 0 < length ((x0, y0) # (x1, y1) # rest) \<and>
        fst (((x0, y0) # (x1, y1) # rest) ! 0) < v \<and> v \<le> fst (((x0, y0) # (x1, y1) # rest) ! Suc 0) \<and>
        r = clamp (lerp (((x0, y0) # (x1, y1) # rest) ! 0) (((x0, y0) # (x1, y1) # rest) ! Suc 0) v)"
      by (auto simp add: lerp_def)
    then show ?thesis by blast
  next
    case False
    with "1.prems" have "x1 < v" and "interpolate_loop v ((x1, y1) # rest) = Some r" by auto
    with "1.IH"[OF False] obtain i where
      "Suc i < length ((x1, y1) # rest) \<and> fst (((x1, y1) # rest) ! i) < v \<and>
       v \<le> fst (((x1, y1) # rest) ! Suc i) \<and>
       r = clamp (lerp (((x1, y1) # rest) ! i) (((x1, y1) # rest) ! Suc i) v)"
      by auto
    then have "Suc (Suc i) < length ((x0, y0) # (x1, y1) # rest) \<and>
        fst (((x0, y0) # (x1, y1) # rest) ! Suc i) < v \<and>
        v \<le> fst (((x0, y0) # (x1, y1) # rest) ! Suc (Suc i)) \<and>
        r = clamp (lerp (((x0, y0) # (x1, y1) # rest) ! Suc i)
                        (((x0, y0) # (x1, y1) # rest) ! Suc (Suc i)) v)"
      by simp
    then show ?thesis by blast
  qed
qed simp_all

lemma interpolate_loop_returns:
  "bp \<noteq> [] \<Longrightarrow> fst (hd bp) < v \<Longrightarrow> v < fst (last bp) \<Longrightarrow> interpolate_loop v bp \<noteq> None"
proof (induction v bp rule: interpolate_loop.induct)
  case (1 v x0 y0 x1 y1 rest)
  show ?case
  proof (cases "x0 \<le> v \<and> v \<le> x1")
    case True
    then show ?thesis by simp
  next
    case False
    with "1.prems" have "x1 < v" by auto
    with "1.prems" have "rest \<noteq> []" by auto
    with "1.IH"[OF False] "1.prems" \<open>x1 < v\<close> False show ?thesis by auto
  qed
qed simp_all

lemma interpolate_range: "0 \<le> interpolate v bp \<and> interpolate v bp \<le> 100"
proof -
  have c: "0 \<le> clamp x \<and> clamp x \<le> 100" for x by (simp add: clamp_def)
  have "interpolate_loop v bp = Some r \<Longrightarrow> 0 \<le> r \<and> r \<le> 100" for r
    by (induction v bp rule: interpolate_loop.induct) (auto simp add: Let_def c split: if_splits)
  with c show ?thesis
    by (auto simp add: interpolate_def split: option.splits)
qed

text \<open>
  C5.  For a breakpoint list strictly ascending by input: the empty list gives 0; a value at
  or below the first input gives the first output, clamped; a value at or above the last
  input gives the last output, clamped; any other value lies between the inputs of two
  consecutive breakpoints, and the result is the point of the line through them, clamped.
  Clamping a number is taking the larger of 0 and the smaller of 100 and the number, so
  that every result is in the range 0 to 100.
\<close>

theorem interpolate_contract:
  "ascending bp \<Longrightarrow>
     interpolate x [] = 0 \<and>
     (bp \<noteq> [] \<and> x \<le> fst (hd bp) \<longrightarrow> interpolate x bp = max 0 (min 100 (snd (hd bp)))) \<and>
     (bp \<noteq> [] \<and> x \<ge> fst (last bp) \<longrightarrow> interpolate x bp = max 0 (min 100 (snd (last bp)))) \<and>
     (bp \<noteq> [] \<and> fst (hd bp) < x \<and> x < fst (last bp) \<longrightarrow>
        (\<exists>i. Suc i < length bp \<and> fst (bp ! i) \<le> x \<and> x \<le> fst (bp ! Suc i)) \<and>
        (\<forall>i. Suc i < length bp \<and> fst (bp ! i) \<le> x \<and> x \<le> fst (bp ! Suc i) \<longrightarrow>
             interpolate x bp = max 0 (min 100 (lerp (bp ! i) (bp ! Suc i) x)))) \<and>
     0 \<le> interpolate x bp \<and> interpolate x bp \<le> 100"
  using interpolate_cases[of bp x] interpolate_range[of x bp]
  by (simp only: clamp_def) blast

theorem interpolate_contract_witness:
  "interpolate 50 [(0, 0), (100, 100)] = 50 \<and>
   interpolate (-3) [(0, 0), (100, 100)] = 0 \<and>
   interpolate 170 [(0, 0), (100, 100)] = 100 \<and>
   interpolate 3 [(3, 250)] = 100 \<and>
   interpolate 3 [(3, -20)] = 0 \<and>
   interpolate 5 [(0, 0), (10, 300)] = 100 \<and>
   interpolate 25 [(0, -40), (100, 100)] = 0 \<and>
   interpolate 21 [(15, 0), (20, 55), (23, 85), (25, 100)] = 65"
proof -
  have a1: "ascending [(0, 0), (100, 100)]" by (simp add: ascending_def)
  have a2: "ascending [(3, 250)]" by (simp add: ascending_def)
  have a3: "ascending [(3, -20)]" by (simp add: ascending_def)
  have a4: "ascending [(0, 0), (10, 300)]" by (simp add: ascending_def)
  have a5: "ascending [(0, -40), (100, 100)]" by (simp add: ascending_def)
  have a6: "ascending [(15, 0), (20, 55), (23, 85), (25, 100)]" by (simp add: ascending_def)
  have "interpolate 50 [(0, 0), (100, 100)] = 50"
    using interpolate_contract[OF a1, of 50] by (simp add: lerp_def)
  moreover have "interpolate (-3) [(0, 0), (100, 100)] = 0"
    using interpolate_contract[OF a1, of "-3"] by simp
  moreover have "interpolate 170 [(0, 0), (100, 100)] = 100"
    using interpolate_contract[OF a1, of 170] by simp
  moreover have "interpolate 3 [(3, 250)] = 100"
    using interpolate_contract[OF a2, of 3] by simp
  moreover have "interpolate 3 [(3, -20)] = 0"
    using interpolate_contract[OF a3, of 3] by simp
  moreover have "interpolate 5 [(0, 0), (10, 300)] = 100"
    using interpolate_contract[OF a4, of 5] by (simp add: lerp_def)
  moreover have "interpolate 25 [(0, -40), (100, 100)] = 0"
    using interpolate_contract[OF a5, of 25] by (simp add: lerp_def)
  moreover have "interpolate 21 [(15, 0), (20, 55), (23, 85), (25, 100)] = 65"
  proof -
    let ?bp = "[(15, 0), (20, 55), (23, 85), (25, 100 :: real)] :: Breakpoints"
    have f: "?bp \<noteq> [] \<and> fst (hd ?bp) < 21 \<and> 21 < fst (last ?bp)" by simp
    have g: "Suc 1 < length ?bp \<and> fst (?bp ! 1) \<le> 21 \<and> 21 \<le> fst (?bp ! Suc 1)" by simp
    have "interpolate 21 ?bp = max 0 (min 100 (lerp (?bp ! 1) (?bp ! Suc 1) 21))"
      using interpolate_contract[OF a6, of 21] f g by blast
    then show ?thesis by (simp add: lerp_def)
  qed
  ultimately show ?thesis by blast
qed

section \<open>Properties of \<open>computeForecast\<close>\<close>

text \<open>
  C2.  With at least two completed months and both cumulative weights (the sums of the
  first \<open>completedMonths\<close> tournament and entry weights) at least 0.001, the projected
  tournaments are the year-to-date tournaments divided by the cumulative tournament weight,
  rounded, and the projected entries the year-to-date entries divided by the cumulative
  entry weight, rounded; neither projection changes with the other metric's year-to-date
  figure.
\<close>

theorem forecast_point_projection:
  "2 \<le> completedMonths \<Longrightarrow>
   1 / 1000 \<le> sum_list (take (nat completedMonths) (tournament_weights w)) \<Longrightarrow>
   1 / 1000 \<le> sum_list (take (nat completedMonths) (entry_weights w)) \<Longrightarrow>
   projected_tournaments (computeForecast ytdT ytdE completedMonths w annualData monthlyData targetYear)
     = \<lfloor>ytdT / sum_list (take (nat completedMonths) (tournament_weights w)) + 1 / 2\<rfloor> \<and>
   projected_entries (computeForecast ytdT ytdE completedMonths w annualData monthlyData targetYear)
     = \<lfloor>ytdE / sum_list (take (nat completedMonths) (entry_weights w)) + 1 / 2\<rfloor> \<and>
   projected_tournaments (computeForecast ytdT ytdE' completedMonths w annualData monthlyData targetYear)
     = projected_tournaments (computeForecast ytdT ytdE completedMonths w annualData monthlyData targetYear) \<and>
   projected_entries (computeForecast ytdT' ytdE completedMonths w annualData monthlyData targetYear)
     = projected_entries (computeForecast ytdT ytdE completedMonths w annualData monthlyData targetYear)"
  by (simp add: computeForecast_def Let_def cumulativeWeight_def Math_round_def)

theorem forecast_point_projection_witness:
  "projected_tournaments (computeForecast 200 1000 2 W0 [] [] 2026) = 1000 \<and>
   projected_entries (computeForecast 200 1000 2 W0 [] [] 2026) = 2500 \<and>
   projected_tournaments (computeForecast 200 1000 3 W0 [] [] 2026) = 200 \<and>
   projected_entries (computeForecast 200 1000 3 W0 [] [] 2026) = 1000 \<and>
   projected_tournaments (computeForecast 100 1000 5 yearWeights [] [] 2026) = 244 \<and>
   projected_entries (computeForecast 100 1000 5 yearWeights [] [] 2026) = 2128 \<and>
   projected_tournaments (computeForecast 100 1000 12 yearWeights [] [] 2026) = 100 \<and>
   projected_entries (computeForecast 100 77 14 yearWeights [] [] 2026) = 77"
proof -
  have s2: "sum_list (take (nat 2) (tournament_weights W0)) = 1 / 5"
    "sum_list (take (nat 2) (entry_weights W0)) = 2 / 5"
    by (simp_all add: W0_def)
  have s3: "sum_list (take (nat 3) (tournament_weights W0)) = 1"
    "sum_list (take (nat 3) (entry_weights W0)) = 1"
    by (simp_all add: W0_def)
  have s5: "sum_list (take (nat 5) (tournament_weights yearWeights)) = 41 / 100"
    "sum_list (take (nat 5) (entry_weights yearWeights)) = 47 / 100"
    by (simp_all add: yearWeights_def)
  have s12: "sum_list (take (nat 12) (tournament_weights yearWeights)) = 1"
    "sum_list (take (nat 12) (entry_weights yearWeights)) = 1"
    by (simp_all add: yearWeights_def)
  have s14: "sum_list (take (nat 14) (tournament_weights yearWeights)) = 1"
    "sum_list (take (nat 14) (entry_weights yearWeights)) = 1"
    by (simp_all add: yearWeights_def)
  have c: "(2::int) \<le> 2" "(2::int) \<le> 3" "(2::int) \<le> 5" "(2::int) \<le> 12" "(2::int) \<le> 14"
    by simp_all
  have h2: "1 / 1000 \<le> sum_list (take (nat 2) (tournament_weights W0))"
    "1 / 1000 \<le> sum_list (take (nat 2) (entry_weights W0))"
    unfolding s2 by simp_all
  have h3: "1 / 1000 \<le> sum_list (take (nat 3) (tournament_weights W0))"
    "1 / 1000 \<le> sum_list (take (nat 3) (entry_weights W0))"
    unfolding s3 by simp_all
  have h5: "1 / 1000 \<le> sum_list (take (nat 5) (tournament_weights yearWeights))"
    "1 / 1000 \<le> sum_list (take (nat 5) (entry_weights yearWeights))"
    unfolding s5 by simp_all
  have h12: "1 / 1000 \<le> sum_list (take (nat 12) (tournament_weights yearWeights))"
    "1 / 1000 \<le> sum_list (take (nat 12) (entry_weights yearWeights))"
    unfolding s12 by simp_all
  have h14: "1 / 1000 \<le> sum_list (take (nat 14) (tournament_weights yearWeights))"
    "1 / 1000 \<le> sum_list (take (nat 14) (entry_weights yearWeights))"
    unfolding s14 by simp_all
  have "projected_tournaments (computeForecast 200 1000 2 W0 [] [] 2026) = 1000 \<and>
        projected_entries (computeForecast 200 1000 2 W0 [] [] 2026) = 2500"
    using forecast_point_projection[OF c(1) h2, where ytdT = 200 and ytdE = 1000
        and annualData = "[]" and monthlyData = "[]" and targetYear = 2026
        and ytdT' = 200 and ytdE' = 1000]
    unfolding s2 by simp
  moreover have "projected_tournaments (computeForecast 200 1000 3 W0 [] [] 2026) = 200 \<and>
        projected_entries (computeForecast 200 1000 3 W0 [] [] 2026) = 1000"
    using forecast_point_projection[OF c(2) h3, where ytdT = 200 and ytdE = 1000
        and annualData = "[]" and monthlyData = "[]" and targetYear = 2026
        and ytdT' = 200 and ytdE' = 1000]
    unfolding s3 by simp
  moreover have "projected_tournaments (computeForecast 100 1000 5 yearWeights [] [] 2026) = 244 \<and>
        projected_entries (computeForecast 100 1000 5 yearWeights [] [] 2026) = 2128"
    using forecast_point_projection[OF c(3) h5, where ytdT = 100 and ytdE = 1000
        and annualData = "[]" and monthlyData = "[]" and targetYear = 2026
        and ytdT' = 100 and ytdE' = 1000]
    unfolding s5 by simp
  moreover have "projected_tournaments (computeForecast 100 1000 12 yearWeights [] [] 2026) = 100"
    using forecast_point_projection[OF c(4) h12, where ytdT = 100 and ytdE = 1000
        and annualData = "[]" and monthlyData = "[]" and targetYear = 2026
        and ytdT' = 100 and ytdE' = 1000]
    unfolding s12 by simp
  moreover have "projected_entries (computeForecast 100 77 14 yearWeights [] [] 2026) = 77"
    using forecast_point_projection[OF c(5) h14, where ytdT = 100 and ytdE = 77
        and annualData = "[]" and monthlyData = "[]" and targetYear = 2026
        and ytdT' = 100 and ytdE' = 77]
    unfolding s14 by simp
  ultimately show ?thesis by blast
qed







section \<open>Properties of \<open>computeTrendLine\<close>\<close>

lemma eligibleYears_two:
  "eligibleSet annualData = [a, b] \<Longrightarrow> year a \<noteq> year b \<Longrightarrow>
   eligibleYears annualData = (if year a < year b then [a, b] else [b, a])"
  by (auto simp add: eligibleYears_def eligibleSet_def)

lemma two_point_numbers:
  fixes x1 x2 y1 y2 :: real
  assumes "x1 \<noteq> x2"
    and xm_def: "xm = (x1 + x2) / 2" and ym_def: "ym = (y1 + y2) / 2"
    and den_def: "den = (x1 - xm)\<^sup>2 + (x2 - xm)\<^sup>2"
    and s_def: "s = ((x1 - xm) * (y1 - ym) + (x2 - xm) * (y2 - ym)) / den"
  shows "den \<noteq> 0" and "s * x1 + (ym - s * xm) = y1" and "s * x2 + (ym - s * xm) = y2"
    and "(y1 - ym)\<^sup>2 + (y2 - ym)\<^sup>2 = 0 \<longleftrightarrow> y1 = y2"
proof -
  have den: "den = (x1 - x2)\<^sup>2 / 2"
    unfolding den_def xm_def by (simp add: field_simps power2_eq_square)
  show "den \<noteq> 0" unfolding den using assms(1) by simp
  have num: "(x1 - xm) * (y1 - ym) + (x2 - xm) * (y2 - ym) = (x1 - x2) * (y1 - y2) / 2"
    unfolding xm_def ym_def by (simp add: field_simps)
  have "s = ((x1 - x2) * (y1 - y2) / 2) / ((x1 - x2)\<^sup>2 / 2)"
    by (simp only: s_def num den)
  also have "\<dots> = (y1 - y2) / (x1 - x2)"
    using assms(1) by (simp add: power2_eq_square)
  finally have s: "s = (y1 - y2) / (x1 - x2)" .
  have "s * (x1 - x2) = y1 - y2" using s assms(1) by simp
  then show "s * x1 + (ym - s * xm) = y1" "s * x2 + (ym - s * xm) = y2"
    unfolding xm_def ym_def by (simp_all add: field_simps)
  have ss: "(y1 - ym)\<^sup>2 + (y2 - ym)\<^sup>2 = (y1 - y2)\<^sup>2 / 2"
    unfolding ym_def by (simp add: field_simps power2_eq_square)
  show "(y1 - ym)\<^sup>2 + (y2 - ym)\<^sup>2 = 0 \<longleftrightarrow> y1 = y2"
    by (simp only: ss) simp
qed

lemma trend_two_sorted:
  assumes el: "eligibleYears annualData = [p, q]" and ne: "year p \<noteq> year q"
    and t: "t = computeTrendLine annualData metric targetYear"
  shows "slope t * real_of_int (year p) + intercept t = metricOf metric p"
    and "slope t * real_of_int (year q) + intercept t = metricOf metric q"
    and "r_squared t = (if metricOf metric p = metricOf metric q then 0 else 1)"
proof -
  define x1 x2 y1 y2 where "x1 = real_of_int (year p)" and "x2 = real_of_int (year q)"
    and "y1 = metricOf metric p" and "y2 = metricOf metric q"
  define xm ym where "xm = (x1 + x2) / 2" and "ym = (y1 + y2) / 2"
  define den where "den = (x1 - xm)\<^sup>2 + (x2 - xm)\<^sup>2"
  define s where "s = ((x1 - xm) * (y1 - ym) + (x2 - xm) * (y2 - ym)) / den"
  have x12: "x1 \<noteq> x2" using ne by (simp add: x1_def x2_def)
  note facts = two_point_numbers[OF x12 xm_def ym_def den_def s_def]
  have sl: "slope t = s" and ic: "intercept t = ym - s * xm"
    using facts(1) unfolding t computeTrendLine_def el
    by (simp_all add: Let_def mean_def x1_def x2_def y1_def y2_def xm_def ym_def den_def s_def)
  show "slope t * real_of_int (year p) + intercept t = metricOf metric p"
    using facts(2) by (simp add: sl ic x1_def y1_def)
  show "slope t * real_of_int (year q) + intercept t = metricOf metric q"
    using facts(3) by (simp add: sl ic x2_def y2_def)
  have r2: "r_squared t =
      (if (y1 - ym)\<^sup>2 + (y2 - ym)\<^sup>2 \<noteq> 0
       then 1 - ((y1 - (s * x1 + (ym - s * xm)))\<^sup>2 + (y2 - (s * x2 + (ym - s * xm)))\<^sup>2)
                / ((y1 - ym)\<^sup>2 + (y2 - ym)\<^sup>2)
       else 0)"
    using facts(1) unfolding t computeTrendLine_def el
    by (simp add: Let_def mean_def x1_def x2_def y1_def y2_def xm_def ym_def den_def s_def)
  show "r_squared t = (if metricOf metric p = metricOf metric q then 0 else 1)"
    unfolding r2 using facts(4) by (simp add: facts(2,3) y1_def y2_def)
qed

text \<open>
  C7, as stated, fails: two eligible years with the same metric value give a total sum
  of squares of 0, and \<open>r_squared\<close> is then 0, not 1.
\<close>

theorem trend_two_points_counterexample:
  "eligibleSet flatYears = flatYears \<and> length flatYears = 2 \<and>
   year (flatYears ! 0) \<noteq> year (flatYears ! 1) \<and>
   r_squared (computeTrendLine flatYears Tournaments 2026) = 0 \<and>
   r_squared (computeTrendLine flatYears Tournaments 2026) \<noteq> 1"
  by (simp add: flatYears_def eligibleSet_def computeTrendLine_def eligibleYears_def Let_def
        mean_def metricOf_def)

text \<open>
  C7, amended.  When exactly two records, of distinct years, are eligible, the regression
  line takes at each of the two years the metric value observed there; \<open>r_squared\<close> is 1
  when the two metric values differ and 0 when they are equal.
\<close>

theorem trend_two_points:
  assumes "eligibleSet annualData = [a, b]" and "year a \<noteq> year b"
    and "t = computeTrendLine annualData metric targetYear"
  shows "slope t * real_of_int (year a) + intercept t = metricOf metric a \<and>
         slope t * real_of_int (year b) + intercept t = metricOf metric b \<and>
         r_squared t = (if metricOf metric a = metricOf metric b then 0 else 1)"
proof (cases "year a < year b")
  case True
  with assms(1,2) have el: "eligibleYears annualData = [a, b]"
    by (simp add: eligibleYears_two)
  show ?thesis
    using trend_two_sorted[OF el assms(2,3)] by simp
next
  case False
  with assms(1,2) have el: "eligibleYears annualData = [b, a]"
    by (simp add: eligibleYears_two)
  from assms(2) have ne: "year b \<noteq> year a" by simp
  show ?thesis
    using trend_two_sorted[OF el ne assms(3)] by auto
qed

theorem trend_two_points_witness:
  "eligibleSet risingYears = [risingYears ! 0, risingYears ! 2] \<and>
   slope (computeTrendLine risingYears Tournaments 2026) * 2023
     + intercept (computeTrendLine risingYears Tournaments 2026) = 120 \<and>
   slope (computeTrendLine risingYears Tournaments 2026) * 2022
     + intercept (computeTrendLine risingYears Tournaments 2026) = 100 \<and>
   r_squared (computeTrendLine risingYears Tournaments 2026) = 1 \<and>
   r_squared (computeTrendLine flatYears Entries 2026) = 1 \<and>
   r_squared (computeTrendLine flatYears Tournaments 2026) = 0"
proof -
  have e1: "eligibleSet risingYears = [risingYears ! 0, risingYears ! 2]"
    by (simp add: risingYears_def eligibleSet_def)
  have e2: "eligibleSet flatYears = [flatYears ! 0, flatYears ! 1]"
    by (simp add: flatYears_def eligibleSet_def)
  have y1: "year (risingYears ! 0) \<noteq> year (risingYears ! 2)"
    by (simp add: risingYears_def)
  have y2: "year (flatYears ! 0) \<noteq> year (flatYears ! 1)"
    by (simp add: flatYears_def)
  show ?thesis
    using trend_two_points[OF e1 y1 refl, of Tournaments 2026]
      trend_two_points[OF e2 y2 refl, of Entries 2026]
      trend_two_points[OF e2 y2 refl, of Tournaments 2026] e1
    by (simp add: risingYears_def flatYears_def metricOf_def)
qed

section \<open>Properties of \<open>computeMonthlyWeights\<close>\<close>

lemma annualRecord_lookup: "annualRecord annualData y = buildAnnualLookup annualData y"
proof (induction annualData rule: rev_induct)
  case Nil
  show ?case by (simp add: annualRecord_def buildAnnualLookup_def)
next
  case (snoc d ds)
  have "buildAnnualLookup (ds @ [d]) = (buildAnnualLookup ds)(year d \<mapsto> d)"
    by (simp add: buildAnnualLookup_def)
  moreover have "annualRecord (ds @ [d]) y = (if year d = y then Some d else annualRecord ds y)"
    by (simp add: annualRecord_def)
  ultimately show ?case using snoc by simp
qed

lemma buildMonthlyLookup_snoc:
  "buildMonthlyLookup (ms @ [d]) = addMonthly d (buildMonthlyLookup ms)"
  by (simp add: buildMonthlyLookup_def)

lemma monthCount_snoc:
  "monthCount (ms @ [d]) y m =
     monthCount ms y m + (if myear d = y \<and> month d = int m + 1 then event_count d else 0)"
  by (simp add: monthCount_def)

lemma buildMonthlyLookup_eq:
  "buildMonthlyLookup ms y =
     (if hasYearData ms y then Some (map (monthCount ms y) [0..<12]) else None)"
proof (induction ms rule: rev_induct)
  case Nil
  show ?case by (simp add: buildMonthlyLookup_def hasYearData_def)
next
  case (snoc d ms)
  show ?case
  proof (cases "myear d = y")
    case False
    with snoc show ?thesis
      by (simp add: buildMonthlyLookup_snoc addMonthly_def Let_def hasYearData_def monthCount_snoc)
  next
    case True
    define arr where "arr = (case buildMonthlyLookup ms y of None \<Rightarrow> replicate 12 0 | Some a \<Rightarrow> a)"
    have arr: "arr = map (monthCount ms y) [0..<12]"
    proof (cases "hasYearData ms y")
      case True
      with snoc show ?thesis by (simp add: arr_def)
    next
      case False
      then have "monthCount ms y m = 0" for m
        by (auto simp: monthCount_def hasYearData_def list_ex_iff filter_empty_conv intro!: sum_list_0)
      then have "map (monthCount ms y) [0..<12] = map (\<lambda>m. 0) [0..<12]" by simp
      also have "\<dots> = replicate 12 0" by (simp only: map_replicate_const length_upt) simp
      finally show ?thesis using False snoc by (simp add: arr_def)
    qed
    have new: "buildMonthlyLookup (ms @ [d]) y =
        Some (if 0 \<le> month d - 1 \<and> month d - 1 < 12
              then arr[nat (month d - 1) := arr ! nat (month d - 1) + event_count d] else arr)"
      using True by (simp add: buildMonthlyLookup_snoc addMonthly_def Let_def arr_def)
    have "(if 0 \<le> month d - 1 \<and> month d - 1 < 12
              then arr[nat (month d - 1) := arr ! nat (month d - 1) + event_count d] else arr)
          = map (monthCount (ms @ [d]) y) [0..<12]"
    proof (rule nth_equalityI)
      show "length (if 0 \<le> month d - 1 \<and> month d - 1 < 12
              then arr[nat (month d - 1) := arr ! nat (month d - 1) + event_count d] else arr)
            = length (map (monthCount (ms @ [d]) y) [0..<12])"
        by (simp add: arr)
    next
      fix j
      assume "j < length (if 0 \<le> month d - 1 \<and> month d - 1 < 12
              then arr[nat (month d - 1) := arr ! nat (month d - 1) + event_count d] else arr)"
      then have j: "j < 12" by (simp add: arr split: if_splits)
      have eq: "month d = int j + 1 \<longleftrightarrow> (0 \<le> month d - 1 \<and> month d - 1 < 12 \<and> nat (month d - 1) = j)"
        using j by auto
      show "(if 0 \<le> month d - 1 \<and> month d - 1 < 12
              then arr[nat (month d - 1) := arr ! nat (month d - 1) + event_count d] else arr) ! j
            = map (monthCount (ms @ [d]) y) [0..<12] ! j"
        using j True eq by (auto simp add: arr monthCount_snoc nth_list_update)
    qed
    with new True show ?thesis by (simp add: hasYearData_def)
  qed
qed

lemma replicate_12_Nil: "replicate 12 [] = map (\<lambda>m. []) [0..<12]"
  by (simp only: map_replicate_const length_upt) simp

lemma collectFractions_snoc:
  "collectFractions annualData monthlyData (ys @ [y]) =
     pushYear (buildAnnualLookup annualData) (buildMonthlyLookup monthlyData) y
       (collectFractions annualData monthlyData ys)"
  by (simp add: collectFractions_def)

lemma collectFractions_eq:
  "collectFractions annualData monthlyData referenceYears =
     (map (\<lambda>m. map (tournamentFraction annualData monthlyData m)
                  (filter (yearCounted annualData monthlyData) referenceYears)) [0..<12],
      map (\<lambda>m. map (entryFraction annualData monthlyData m)
                  (filter (yearCounted annualData monthlyData) referenceYears)) [0..<12])"
proof (induction referenceYears rule: rev_induct)
  case Nil
  show ?case by (simp add: collectFractions_def replicate_12_Nil)
next
  case (snoc y ys)
  show ?case
  proof (cases "yearCounted annualData monthlyData y")
    case False
    then have "pushYear (buildAnnualLookup annualData) (buildMonthlyLookup monthlyData) y acc = acc"
      for acc
      by (auto simp add: pushYear_def yearCounted_def buildMonthlyLookup_eq annualTournaments_def annualRecord_lookup
            split: option.splits)
    with False show ?thesis
      unfolding collectFractions_snoc snoc.IH by simp
  next
    case True
    then obtain annual where a: "buildAnnualLookup annualData y = Some annual"
      and t: "tournaments annual \<noteq> 0" and h: "hasYearData monthlyData y"
      by (auto simp add: yearCounted_def annualTournaments_def annualRecord_lookup)
    have m: "buildMonthlyLookup monthlyData y = Some (map (monthCount monthlyData y) [0..<12])"
      using h by (simp add: buildMonthlyLookup_eq)
    have tf: "tournamentFraction annualData monthlyData k y = monthCount monthlyData y k / tournaments annual"
      for k by (simp add: tournamentFraction_def annualTournaments_def annualRecord_lookup a)
    have ef: "entryFraction annualData monthlyData k y =
        (if entries annual > 0 then monthCount monthlyData y k / tournaments annual else 0)"
      for k by (simp add: entryFraction_def annualTournaments_def annualRecord_lookup annualEntries_def a)
    show ?thesis
      unfolding collectFractions_snoc snoc.IH
      using True t by (simp add: pushYear_def a m tf ef cong: map_cong)
  qed
qed

lemma nth_months: "m < 12 \<Longrightarrow> map f [0..<12] ! m = f m"
  by simp

lemma fractions_nth:
  "m < 12 \<Longrightarrow> fst (collectFractions annualData monthlyData referenceYears) ! m =
     map (tournamentFraction annualData monthlyData m)
       (filter (yearCounted annualData monthlyData) referenceYears)"
  "m < 12 \<Longrightarrow> snd (collectFractions annualData monthlyData referenceYears) ! m =
     map (entryFraction annualData monthlyData m)
       (filter (yearCounted annualData monthlyData) referenceYears)"
  by (simp_all only: collectFractions_eq fst_conv snd_conv nth_months)

lemma sparse_lookup:
  "buildAnnualLookup sparseAnnual 2019 = Some \<lparr> year = 2019, tournaments = 100, entries = 500 \<rparr>"
  "buildAnnualLookup sparseAnnual 2022 = Some \<lparr> year = 2022, tournaments = 100, entries = 500 \<rparr>"
  by (simp_all add: buildAnnualLookup_def sparseAnnual_def)

lemma sparse_counted:
  "filter (yearCounted sparseAnnual sparseMonthly) [2019, 2022] = [2019, 2022]"
  by (simp add: yearCounted_def sparse_lookup annualTournaments_def annualRecord_lookup hasYearData_def sparseMonthly_def)

lemma sparse_fractions:
  "tournamentFraction sparseAnnual sparseMonthly 2 2019 = 1 / 10"
  "tournamentFraction sparseAnnual sparseMonthly 2 2022 = 0"
  "entryFraction sparseAnnual sparseMonthly 2 2019 = 1 / 10"
  "entryFraction sparseAnnual sparseMonthly 2 2022 = 0"
  by (simp_all add: tournamentFraction_def entryFraction_def annualEntries_def annualTournaments_def annualRecord_lookup
        sparse_lookup monthCount_def sparseMonthly_def)

text \<open>
  C6, as stated, fails.  The year 2022 has a record for January only; for March (index 2)
  it is not skipped: it contributes the fraction 0, and the March weight is the mean
  \<open>1/20\<close> of \<open>[1/10, 0]\<close>, not the \<open>1/10\<close> that skipping the year for March would give.
\<close>

theorem monthly_weights_skip_counterexample:
  "\<not> hasMonthData sparseMonthly 2022 2 \<and>
   filter (yearCountedAsStated sparseAnnual sparseMonthly 2) [2019, 2022] = [2019] \<and>
   average (map (tournamentFraction sparseAnnual sparseMonthly 2)
          (filter (yearCountedAsStated sparseAnnual sparseMonthly 2) [2019, 2022])) = 1 / 10 \<and>
   fst (collectFractions sparseAnnual sparseMonthly [2019, 2022]) ! 2 = [1 / 10, 0] \<and>
   tournament_weights (computeMonthlyWeights sparseAnnual sparseMonthly [2019, 2022]) ! 2 = 1 / 20"
proof -
  have a: "\<not> hasMonthData sparseMonthly 2022 2"
    by (simp add: hasMonthData_def sparseMonthly_def)
  have b: "filter (yearCountedAsStated sparseAnnual sparseMonthly 2) [2019, 2022] = [2019]"
    by (simp add: yearCountedAsStated_def sparse_lookup annualTournaments_def annualRecord_lookup hasMonthData_def
          sparseMonthly_def)
  have m: "(2::nat) < 12" by simp
  have c: "fst (collectFractions sparseAnnual sparseMonthly [2019, 2022]) ! 2 = [1 / 10, 0]"
    by (simp only: fractions_nth(1)[OF m] sparse_counted) (simp add: sparse_fractions)
  have "length (fst (collectFractions sparseAnnual sparseMonthly [2019, 2022])) = 12"
    by (simp add: collectFractions_eq)
  then have d: "tournament_weights (computeMonthlyWeights sparseAnnual sparseMonthly [2019, 2022]) ! 2
      = mean (fst (collectFractions sparseAnnual sparseMonthly [2019, 2022]) ! 2)"
    by (simp add: computeMonthlyWeights_def Let_def)
  have e: "tournament_weights (computeMonthlyWeights sparseAnnual sparseMonthly [2019, 2022]) ! 2 = 1 / 20"
    by (simp only: d c) (simp add: mean_def)
  have f: "average (map (tournamentFraction sparseAnnual sparseMonthly 2)
          (filter (yearCountedAsStated sparseAnnual sparseMonthly 2) [2019, 2022])) = 1 / 10"
    by (simp only: b) (simp add: sparse_fractions average_def)
  show ?thesis
    using a b c e f by blast
qed

text \<open>
  C6, amended.  A reference year is skipped, for all twelve months at once, when the data
  has no annual record of it, no monthly record of it for any month, or a zero annual
  tournament total.  The weight of a month is the average, and its standard deviation the
  population standard deviation, of the fractions of the other reference years (0 when
  there is none, or fewer than two for the deviation); such a year contributes a fraction
  to every month, and that fraction is 0 for a month it has no record of.
\<close>

theorem monthly_weights_skip_rule:
  assumes "m < 12"
    and "w = computeMonthlyWeights annualData monthlyData referenceYears"
    and "ys = filter (yearCounted annualData monthlyData) referenceYears"
    and "fr = map (tournamentFraction annualData monthlyData m) ys"
    and "efr = map (entryFraction annualData monthlyData m) ys"
  shows "tournament_weights w ! m = (if ys = [] then 0 else average fr) \<and>
         weight_std w ! m = (if length ys < 2 then 0 else populationStd fr) \<and>
         entry_weights w ! m = (if ys = [] then 0 else average efr) \<and>
         (\<forall>y. \<not> hasMonthData monthlyData y m \<longrightarrow>
               tournamentFraction annualData monthlyData m y = 0 \<and>
               entryFraction annualData monthlyData m y = 0)"
proof -
  have "monthCount monthlyData y m = 0" if "\<not> hasMonthData monthlyData y m" for y
    using that
    by (auto simp: monthCount_def hasMonthData_def list_ex_iff filter_empty_conv intro!: sum_list_0)
  then have z: "\<forall>y. \<not> hasMonthData monthlyData y m \<longrightarrow>
               tournamentFraction annualData monthlyData m y = 0 \<and>
               entryFraction annualData monthlyData m y = 0"
    by (simp add: tournamentFraction_def entryFraction_def)
  have len: "length (fst (collectFractions annualData monthlyData referenceYears)) = 12"
    "length (snd (collectFractions annualData monthlyData referenceYears)) = 12"
    by (simp_all add: collectFractions_eq)
  have tw: "tournament_weights w ! m = mean fr" and ws: "weight_std w ! m = stddev fr"
    and ew: "entry_weights w ! m = mean efr"
    using assms(1) len unfolding assms(2,3,4,5)
    by (simp_all add: computeMonthlyWeights_def Let_def fractions_nth)
  have m: "mean xs = (if xs = [] then 0 else average xs)" for xs
    by (simp add: mean_def average_def)
  have sd: "stddev xs = (if length xs < 2 then 0 else populationStd xs)" for xs
    by (simp add: stddev_def populationStd_def mean_def average_def Let_def)
  have l: "length fr = length ys" "length efr = length ys" "fr = [] \<longleftrightarrow> ys = []"
    "efr = [] \<longleftrightarrow> ys = []"
    by (simp_all add: assms(4,5))
  show ?thesis
    using z by (simp add: tw ws ew m sd l)
qed

lemma sqrt_100: "sqrt (1 / 100) = 1 / 10"
  by (rule real_sqrt_unique) (simp_all add: power2_eq_square)

lemma reference_records:
  "annualRecord referenceAnnual 2019 = Some \<lparr> year = 2019, tournaments = 100, entries = 500 \<rparr>"
  "annualRecord referenceAnnual 2021 = Some \<lparr> year = 2021, tournaments = 80, entries = 100 \<rparr>"
  "annualRecord referenceAnnual 2022 = Some \<lparr> year = 2022, tournaments = 100, entries = 500 \<rparr>"
  "annualRecord referenceAnnual 2018 = Some \<lparr> year = 2018, tournaments = 90, entries = 0 \<rparr>"
  "annualRecord referenceAnnual 2023 = Some \<lparr> year = 2023, tournaments = 0, entries = 5 \<rparr>"
  "annualRecord referenceAnnual 2024 = Some \<lparr> year = 2024, tournaments = 300, entries = 0 \<rparr>"
  "annualRecord referenceAnnual 2025 = None"
  by (simp_all add: annualRecord_def referenceAnnual_def)

lemma reference_has:
  "hasYearData referenceMonthly 2019" "\<not> hasYearData referenceMonthly 2021"
  "hasYearData referenceMonthly 2022" "hasYearData referenceMonthly 2018"
  "hasYearData referenceMonthly 2023" "hasYearData referenceMonthly 2024"
  "hasYearData referenceMonthly 2025"
  by (simp_all add: hasYearData_def referenceMonthly_def)

lemma reference_counted:
  "filter (yearCounted referenceAnnual referenceMonthly) [2019, 2021, 2022, 2018, 2023, 2024, 2025]
     = [2019, 2022, 2018, 2024]"
  by (simp add: yearCounted_def reference_records reference_has annualTournaments_def)

lemma reference_fractions:
  "map (tournamentFraction referenceAnnual referenceMonthly 2) [2019, 2022, 2018, 2024]
     = [1 / 5, 0, 0, 1 / 5]"
  "map (entryFraction referenceAnnual referenceMonthly 2) [2019, 2022, 2018, 2024]
     = [1 / 5, 0, 0, 0]"
  by (simp_all add: tournamentFraction_def entryFraction_def annualEntries_def annualTournaments_def
        reference_records monthCount_def referenceMonthly_def)

lemma reference_statistics:
  "average [1 / 5, 0, 0, 1 / 5] = 1 / 10" "populationStd [1 / 5, 0, 0, 1 / 5] = 1 / 10"
  "average [1 / 5, 0, 0, 0] = 1 / 20"
proof -
  show a: "average [1 / 5, 0, 0, 1 / 5] = 1 / 10" by (simp add: average_def)
  have "sum_list (map (\<lambda>x. (x - 1 / 10)\<^sup>2) [1 / 5, 0, 0, 1 / 5 :: real])
          / real (length [1 / 5, 0, 0, 1 / 5 :: real]) = 1 / 100"
    by (simp add: power2_eq_square)
  then show "populationStd [1 / 5, 0, 0, 1 / 5] = 1 / 10"
    unfolding populationStd_def a by (simp only: sqrt_100)
  show "average [1 / 5, 0, 0, 0] = 1 / 20" by (simp add: average_def)
qed

theorem monthly_weights_skip_rule_witness:
  "filter (yearCounted referenceAnnual referenceMonthly) [2019, 2021, 2022, 2018, 2023, 2024, 2025]
     = [2019, 2022, 2018, 2024] \<and>
   \<not> hasMonthData referenceMonthly 2022 2 \<and>
   tournamentFraction referenceAnnual referenceMonthly 2 2022 = 0 \<and>
   tournament_weights (computeMonthlyWeights referenceAnnual referenceMonthly
                         [2019, 2021, 2022, 2018, 2023, 2024, 2025]) ! 2 = 1 / 10 \<and>
   weight_std (computeMonthlyWeights referenceAnnual referenceMonthly
                 [2019, 2021, 2022, 2018, 2023, 2024, 2025]) ! 2 = 1 / 10 \<and>
   entry_weights (computeMonthlyWeights referenceAnnual referenceMonthly
                    [2019, 2021, 2022, 2018, 2023, 2024, 2025]) ! 2 = 1 / 20 \<and>
   tournament_weights (computeMonthlyWeights referenceAnnual referenceMonthly [2021, 2023, 2025]) ! 2 = 0 \<and>
   weight_std (computeMonthlyWeights referenceAnnual referenceMonthly [2021, 2023, 2025]) ! 2 = 0"
proof -
  have m: "(2::nat) < 12" by simp
  have h: "\<not> hasMonthData referenceMonthly 2022 2"
    by (simp add: hasMonthData_def referenceMonthly_def)
  have none: "filter (yearCounted referenceAnnual referenceMonthly) [2021, 2023, 2025] = []"
    by (simp add: yearCounted_def reference_records reference_has annualTournaments_def)
  note A = monthly_weights_skip_rule[OF m refl reference_counted[symmetric]
      reference_fractions(1)[symmetric] reference_fractions(2)[symmetric]]
  have e: "[] = map (tournamentFraction referenceAnnual referenceMonthly 2) []"
    "[] = map (entryFraction referenceAnnual referenceMonthly 2) []"
    by simp_all
  note B = monthly_weights_skip_rule[OF m refl none[symmetric] e]
  have "tournamentFraction referenceAnnual referenceMonthly 2 2022 = 0"
    using A h by blast
  moreover have "tournament_weights (computeMonthlyWeights referenceAnnual referenceMonthly
                         [2019, 2021, 2022, 2018, 2023, 2024, 2025]) ! 2 = 1 / 10 \<and>
     weight_std (computeMonthlyWeights referenceAnnual referenceMonthly
                 [2019, 2021, 2022, 2018, 2023, 2024, 2025]) ! 2 = 1 / 10 \<and>
     entry_weights (computeMonthlyWeights referenceAnnual referenceMonthly
                    [2019, 2021, 2022, 2018, 2023, 2024, 2025]) ! 2 = 1 / 20"
    using A by (simp add: reference_statistics)
  moreover have
    "tournament_weights (computeMonthlyWeights referenceAnnual referenceMonthly [2021, 2023, 2025]) ! 2 = 0 \<and>
     weight_std (computeMonthlyWeights referenceAnnual referenceMonthly [2021, 2023, 2025]) ! 2 = 0"
    using B by simp
  ultimately show ?thesis using reference_counted h by blast
qed

section \<open>Properties of the confidence intervals of \<open>computeForecast\<close>\<close>
































section \<open>Properties of \<open>computeHealthScore\<close>\<close>

text \<open>Each of the six breakpoint lists that \<open>computeHealthScore\<close> reads is there to be read.\<close>

lemma merged_breakpoints_present:
  "k \<in> fst ` set DEFAULT_BREAKPOINTS \<Longrightarrow> map_of (spread DEFAULT_BREAKPOINTS cb) k \<noteq> None"
proof -
  have "fst ` set (fold (\<lambda>(k, v). AList.update k v) c d) = fst ` set d \<union> fst ` set c"
    for c d :: "(string \<times> Breakpoints) list"
  proof (induction c arbitrary: d)
    case Nil
    show ?case by simp
  next
    case (Cons x c)
    obtain a b where x: "x = (a, b)" by (cases x)
    show ?case by (simp add: x Cons.IH dom_update)
  qed
  then have "fst ` set (spread DEFAULT_BREAKPOINTS cb) = fst ` set DEFAULT_BREAKPOINTS \<union> fst ` set cb"
    by (simp add: spread_def)
  moreover assume "k \<in> fst ` set DEFAULT_BREAKPOINTS"
  ultimately have "k \<in> fst ` set (spread DEFAULT_BREAKPOINTS cb)" by simp
  then show ?thesis by (simp add: map_of_eq_None_iff)
qed

lemma lift2_simps [simp]:
  "lift2 f None b = None" "lift2 f a None = None" "lift2 f (Some x) (Some y) = Some (f x y)"
  by (simp_all add: lift2_def split: option.splits)

lemma clamp_range: "0 \<le> clamp v \<and> clamp v \<le> 100"
  by (simp add: clamp_def)

lemma round2_range: "0 \<le> v \<Longrightarrow> v \<le> 100 \<Longrightarrow> 0 \<le> round2 v \<and> round2 v \<le> 100"
proof -
  assume a: "0 \<le> v" "v \<le> 100"
  have "0 \<le> \<lfloor>v * 100 + 1 / 2\<rfloor>" using a by simp
  moreover have "\<lfloor>v * 100 + 1 / 2\<rfloor> \<le> 10000"
  proof -
    have "v * 100 + 1 / 2 < 10001" using a by simp
    then have "\<lfloor>v * 100 + 1 / 2\<rfloor> < 10001" by (simp add: floor_less_iff)
    then show ?thesis by simp
  qed
  ultimately show ?thesis by (simp add: round2_def Math_round_def)
qed

lemma round2_error: "\<bar>round2 v - v\<bar> \<le> 1 / 200"
proof -
  define n where "n = real_of_int \<lfloor>v * 100 + 1 / 2\<rfloor>"
  have "n \<le> v * 100 + 1 / 2" and "v * 100 + 1 / 2 < n + 1"
    unfolding n_def by linarith+
  then have "\<bar>n / 100 - v\<bar> \<le> 1 / 200" by linarith
  then show ?thesis by (simp only: round2_def Math_round_def n_def)
qed

lemma fold_weighted_None:
  "fold (\<lambda>(k, w) sum. lift2 (+) sum (lift2 (*) (s k) (Some w))) ws None = None"
  by (induction ws) (auto)

lemma fold_weighted_known:
  "\<forall>k \<in> fst ` set ws. s k = Some (f k) \<Longrightarrow>
   fold (\<lambda>(k, w) sum. lift2 (+) sum (lift2 (*) (s k) (Some w))) ws (Some a)
     = Some (a + (\<Sum>(k, w)\<leftarrow>ws. f k * w))"
  by (induction ws arbitrary: a) (auto simp add: algebra_simps)

lemma weighted_known:
  "\<forall>k \<in> fst ` set ws. s k = Some (f k) \<Longrightarrow> weighted s ws = Some (\<Sum>(k, w)\<leftarrow>ws. f k * w)"
  using fold_weighted_known[of ws s f 0] by (simp add: weighted_def)

lemma fold_weighted_unknown:
  "(k, w) \<in> set ws \<Longrightarrow> s k = None \<Longrightarrow>
   fold (\<lambda>(k, w) sum. lift2 (+) sum (lift2 (*) (s k) (Some w))) ws a = None"
  by (induction ws arbitrary: a) (auto simp add: fold_weighted_None)

lemma weighted_unknown: "(k, w) \<in> set ws \<Longrightarrow> s k = None \<Longrightarrow> weighted s ws = None"
  unfolding weighted_def by (rule fold_weighted_unknown)

lemma spread_keys: "fst ` set (spread d c) = fst ` set d \<union> fst ` set c"
proof -
  have "fst ` set (fold (\<lambda>(k, v). AList.update k v) c d) = fst ` set d \<union> fst ` set c" for d
  proof (induction c arbitrary: d)
    case Nil
    show ?case by simp
  next
    case (Cons x c)
    obtain a b where x: "x = (a, b)" by (cases x)
    have "fst ` set (fold (\<lambda>(k, v). AList.update k v) (x # c) d)
        = fst ` set (AList.update a b d) \<union> fst ` set c"
      by (simp add: x Cons.IH)
    also have "\<dots> = fst ` set d \<union> fst ` set (x # c)"
      by (simp add: dom_update x)
    finally show ?case .
  qed
  then show ?thesis by (simp add: spread_def)
qed

lemma spread_distinct: "distinct (map fst d) \<Longrightarrow> distinct (map fst (spread d c))"
proof -
  have "distinct (map fst d) \<Longrightarrow> distinct (map fst (fold (\<lambda>(k, v). AList.update k v) c d))" for d
    by (induction c arbitrary: d) (auto simp add: distinct_update)
  then show "distinct (map fst d) \<Longrightarrow> distinct (map fst (spread d c))" by (simp add: spread_def)
qed

lemma default_keys: "fst ` set DEFAULT_WEIGHTS = componentNames"
  by (auto simp add: DEFAULT_WEIGHTS_def componentNames_def)

lemma component_known:
  "k \<in> componentNames \<Longrightarrow>
   map_of (componentScores input bps) k = Some (componentScoreOf input bps k)"
  by (auto simp add: componentNames_def componentScoreOf_def componentScores_def)

lemma component_unknown:
  "k \<notin> componentNames \<Longrightarrow> map_of (componentScores input bps) k = None"
  by (simp add: componentNames_def componentScores_def)

lemma composite_eq:
  "composite_score (computeHealthScore input v cw cb) =
     map_option (round2 \<circ> clamp)
       (weighted (map_of (componentScores input (spread DEFAULT_BREAKPOINTS cb)))
          (spread DEFAULT_WEIGHTS cw))"
  by (simp add: computeHealthScore_def Let_def)

lemma band_eq:
  "band (computeHealthScore input v cw cb) =
     (case weighted (map_of (componentScores input (spread DEFAULT_BREAKPOINTS cb)))
             (spread DEFAULT_WEIGHTS cw)
      of Some c \<Rightarrow> getBand c | None \<Rightarrow> critical)"
  by (simp add: computeHealthScore_def Let_def)

lemma merged_keys_known:
  "fst ` set cw \<subseteq> componentNames \<Longrightarrow> fst ` set (spread DEFAULT_WEIGHTS cw) = componentNames"
  by (auto simp add: spread_keys default_keys)

lemma weighted_components:
  assumes "fst ` set cw \<subseteq> componentNames"
  shows "weighted (map_of (componentScores input bps)) (spread DEFAULT_WEIGHTS cw)
         = Some (\<Sum>(k, w)\<leftarrow>spread DEFAULT_WEIGHTS cw. componentScoreOf input bps k * w)"
  by (rule weighted_known) (simp add: merged_keys_known[OF assms] component_known)

text \<open>
  C1, as stated, fails.  A weight override under a key that is no component is merged like
  any other; the component score read for it is \<open>undefined\<close>, the weighted sum is NaN, and
  so is the composite score, which is then not in the range 0 to 100.
\<close>

theorem health_composite_counterexample:
  "\<not> in_0_100 (composite_score (computeHealthScore sampleInput 1 [(''foo'', 1)] []))"
proof -
  have "(''foo'', 1) \<in> set (spread DEFAULT_WEIGHTS [(''foo'', 1)])"
    by (simp add: spread_def DEFAULT_WEIGHTS_def)
  moreover have "map_of (componentScores sampleInput (spread DEFAULT_BREAKPOINTS [])) ''foo'' = None"
    by (rule component_unknown) (simp add: componentNames_def)
  ultimately have "weighted (map_of (componentScores sampleInput (spread DEFAULT_BREAKPOINTS [])))
      (spread DEFAULT_WEIGHTS [(''foo'', 1)]) = None"
    by (rule weighted_unknown)
  then show ?thesis by (simp add: composite_eq in_0_100_def)
qed

lemma map_of_spread:
  "map_of (spread d c) k = (case map_of (rev c) k of Some v \<Rightarrow> Some v | None \<Rightarrow> map_of d k)"
proof -
  have "map_of (fold (\<lambda>(k, v). AList.update k v) c d) k
      = (case map_of (rev c) k of Some v \<Rightarrow> Some v | None \<Rightarrow> map_of d k)" for d
  proof (induction c arbitrary: d)
    case Nil
    show ?case by simp
  next
    case (Cons x c)
    obtain a b where x: "x = (a, b)" by (cases x)
    show ?case
      by (simp add: x Cons.IH update_conv' map_add_def split: option.splits)
  qed
  then show ?thesis by (simp add: spread_def)
qed

lemma map_of_mergedEntries:
  "map_of (mergedEntries d c) k =
     (case map_of d k of None \<Rightarrow> None
      | Some v \<Rightarrow> Some (case map_of (rev c) k of Some v' \<Rightarrow> v' | None \<Rightarrow> v))"
  unfolding mergedEntries_def by (induction d) (auto split: option.splits)

lemma spread_lookup_default_key:
  "k \<in> fst ` set d \<Longrightarrow> map_of (spread d c) k = map_of (mergedEntries d c) k"
proof -
  assume "k \<in> fst ` set d"
  then obtain v where "map_of d k = Some v"
    by (metis map_of_eq_None_iff not_None_eq)
  then show ?thesis
    by (simp add: map_of_spread map_of_mergedEntries split: option.splits)
qed

lemma spread_same_keys: "fst ` set c \<subseteq> fst ` set d \<Longrightarrow> map fst (spread d c) = map fst d"
proof -
  have "fst ` set c \<subseteq> fst ` set d \<Longrightarrow>
      map fst (fold (\<lambda>(k, v). AList.update k v) c d) = map fst d" for d
  proof (induction c arbitrary: d)
    case Nil
    show ?case by simp
  next
    case (Cons x c)
    obtain a b where x: "x = (a, b)" by (cases x)
    from Cons.prems x have a: "a \<in> fst ` set d" and c: "fst ` set c \<subseteq> fst ` set d" by auto
    from a have k: "map fst (AList.update a b d) = map fst d" by (simp add: update_keys)
    then have "fst ` set (AList.update a b d) = fst ` set d" by (metis set_map)
    with c have "fst ` set c \<subseteq> fst ` set (AList.update a b d)" by simp
    from Cons.IH[OF this] show ?case by (simp add: x k)
  qed
  then show "fst ` set c \<subseteq> fst ` set d \<Longrightarrow> map fst (spread d c) = map fst d"
    by (simp add: spread_def)
qed

lemma entries_by_keys:
  "distinct (map fst xs) \<Longrightarrow> xs = map (\<lambda>k. (k, the (map_of xs k))) (map fst xs)"
proof (induction xs)
  case Nil
  show ?case by simp
next
  case (Cons x xs)
  obtain a b where x: "x = (a, b)" by (cases x)
  from Cons.prems x have "a \<notin> fst ` set xs" and d: "distinct (map fst xs)" by auto
  then have "map (\<lambda>k. (k, the (map_of (x # xs) k))) (map fst xs)
      = map (\<lambda>k. (k, the (map_of xs k))) (map fst xs)"
    by (auto simp add: x)
  with Cons.IH[OF d] show ?case by (simp add: x)
qed

lemma spread_is_mergedEntries:
  assumes "fst ` set c \<subseteq> fst ` set d" and "distinct (map fst d)"
  shows "spread d c = mergedEntries d c"
proof -
  have k1: "map fst (spread d c) = map fst d" by (rule spread_same_keys[OF assms(1)])
  have k2: "map fst (mergedEntries d c) = map fst d"
    by (simp add: mergedEntries_def split_beta comp_def)
  have d1: "distinct (map fst (spread d c))" by (simp add: k1 assms(2))
  have d2: "distinct (map fst (mergedEntries d c))" by (simp add: k2 assms(2))
  have "map (\<lambda>k. (k, the (map_of (spread d c) k))) (map fst d)
      = map (\<lambda>k. (k, the (map_of (mergedEntries d c) k))) (map fst d)"
    by (rule map_cong) (simp_all add: spread_lookup_default_key)
  with entries_by_keys[OF d1] entries_by_keys[OF d2] show ?thesis
    by (simp only: k1 k2)
qed

lemma default_weights_distinct: "distinct (map fst DEFAULT_WEIGHTS)"
  by (simp add: DEFAULT_WEIGHTS_def)

lemma default_breakpoint_keys: "fst ` set DEFAULT_BREAKPOINTS = componentNames"
  by (auto simp add: DEFAULT_BREAKPOINTS_def componentNames_def)

lemma componentScores_merged:
  "componentScores input (spread DEFAULT_BREAKPOINTS cb)
     = componentScores input (mergedEntries DEFAULT_BREAKPOINTS cb)"
proof -
  have "breakpointsOf (spread DEFAULT_BREAKPOINTS cb) k
      = breakpointsOf (mergedEntries DEFAULT_BREAKPOINTS cb) k" if "k \<in> componentNames" for k
    using that by (simp add: breakpointsOf_def spread_lookup_default_key default_breakpoint_keys)
  then show ?thesis
    by (simp add: componentScores_def diversityRaw_def componentNames_def)
qed

text \<open>
  C1, amended.  When the keys of the weight overrides are among the six component names,
  the composite score is the sum, over the default weights each with its override if there
  is one, of component score times weight, clamped to the range 0 to 100 (the larger of 0
  and the smaller of 100 and the sum) and rounded to 2 decimals, hence in that range; the
  band is read off the unclamped sum by the thresholds 80, 65, 50 and 35.  The component
  scores are those under the default breakpoints, each list with its override if there is
  one.
\<close>

theorem health_composite:
  assumes "fst ` set customWeights \<subseteq> componentNames"
    and "weights = mergedEntries DEFAULT_WEIGHTS customWeights"
    and "breakpoints = mergedEntries DEFAULT_BREAKPOINTS customBreakpoints"
    and "r = computeHealthScore input version customWeights customBreakpoints"
    and "S = (\<Sum>(k, w)\<leftarrow>weights. componentScoreOf input breakpoints k * w)"
  shows "composite_score r = Some (real_of_int \<lfloor>max 0 (min 100 S) * 100 + 1 / 2\<rfloor> / 100) \<and>
         in_0_100 (composite_score r) \<and>
         band r = (if S \<ge> 80 then thriving else if S \<ge> 65 then healthy
                   else if S \<ge> 50 then stable else if S \<ge> 35 then concerning else critical)"
proof -
  have ws: "spread DEFAULT_WEIGHTS customWeights = weights"
    unfolding assms(2) using assms(1)
    by (intro spread_is_mergedEntries) (simp_all add: default_keys default_weights_distinct)
  have cs: "componentScores input (spread DEFAULT_BREAKPOINTS customBreakpoints)
      = componentScores input breakpoints"
    unfolding assms(3) by (rule componentScores_merged)
  have "weighted (map_of (componentScores input (spread DEFAULT_BREAKPOINTS customBreakpoints)))
          (spread DEFAULT_WEIGHTS customWeights)
        = Some (\<Sum>(k, w)\<leftarrow>spread DEFAULT_WEIGHTS customWeights.
                  componentScoreOf input (spread DEFAULT_BREAKPOINTS customBreakpoints) k * w)"
    by (rule weighted_components[OF assms(1)])
  then have w: "weighted (map_of (componentScores input (spread DEFAULT_BREAKPOINTS customBreakpoints)))
          (spread DEFAULT_WEIGHTS customWeights) = Some S"
    by (simp add: ws assms(5) componentScoreOf_def cs)
  have c: "composite_score r = Some (round2 (clamp S))"
    using w by (simp add: assms(4) composite_eq)
  have "0 \<le> round2 (clamp S) \<and> round2 (clamp S) \<le> 100"
    using clamp_range[of S] by (simp add: round2_range)
  then have i: "in_0_100 (composite_score r)" by (simp add: c in_0_100_def)
  have b: "band r = getBand S"
    using w by (simp add: assms(4) band_eq)
  have e: "round2 (clamp S) = real_of_int \<lfloor>max 0 (min 100 S) * 100 + 1 / 2\<rfloor> / 100"
    by (simp add: round2_def clamp_def Math_round_def)
  show ?thesis using c i b by (simp add: getBand_def e)
qed

lemma sample_scores:
  "componentScoreOf sampleInput DEFAULT_BREAKPOINTS ''growth'' = 75"
  "componentScoreOf sampleInput DEFAULT_BREAKPOINTS ''attendance'' = 85"
  "componentScoreOf sampleInput DEFAULT_BREAKPOINTS ''retention'' = 85"
  "componentScoreOf sampleInput DEFAULT_BREAKPOINTS ''momentum'' = 200 / 3"
  "componentScoreOf sampleInput DEFAULT_BREAKPOINTS ''diversity'' = 6497 / 100"
  "componentScoreOf sampleInput DEFAULT_BREAKPOINTS ''youth'' = 50"
  by (simp_all add: componentScoreOf_def componentScores_def sampleInput_def DEFAULT_BREAKPOINTS_def
        breakpointsOf_def growthRaw_def momentumRaw_def diversityRaw_def interpolate_def clamp_def
        Let_def)

lemma sample_scores_youth_override:
  "componentScoreOf sampleInput (mergedEntries DEFAULT_BREAKPOINTS [(''youth'', [(0, 100)])]) ''growth'' = 75"
  "componentScoreOf sampleInput (mergedEntries DEFAULT_BREAKPOINTS [(''youth'', [(0, 100)])]) ''attendance'' = 85"
  "componentScoreOf sampleInput (mergedEntries DEFAULT_BREAKPOINTS [(''youth'', [(0, 100)])]) ''retention'' = 85"
  "componentScoreOf sampleInput (mergedEntries DEFAULT_BREAKPOINTS [(''youth'', [(0, 100)])]) ''momentum'' = 200 / 3"
  "componentScoreOf sampleInput (mergedEntries DEFAULT_BREAKPOINTS [(''youth'', [(0, 100)])]) ''diversity'' = 6497 / 100"
  "componentScoreOf sampleInput (mergedEntries DEFAULT_BREAKPOINTS [(''youth'', [(0, 100)])]) ''youth'' = 100"
  by (simp_all add: componentScoreOf_def componentScores_def sampleInput_def DEFAULT_BREAKPOINTS_def
        mergedEntries_def breakpointsOf_def growthRaw_def momentumRaw_def diversityRaw_def
        interpolate_def clamp_def Let_def)

lemma sample_merged_weights:
  "mergedEntries DEFAULT_WEIGHTS [(''growth'', 3 / 10), (''youth'', 5 / 100)] =
     [(''growth'', 3 / 10), (''attendance'', 20 / 100), (''retention'', 20 / 100),
      (''momentum'', 15 / 100), (''diversity'', 10 / 100), (''youth'', 5 / 100)]"
  "mergedEntries DEFAULT_WEIGHTS [] = DEFAULT_WEIGHTS"
  "mergedEntries DEFAULT_WEIGHTS [(''growth'', 2)] =
     [(''growth'', 2), (''attendance'', 20 / 100), (''retention'', 20 / 100),
      (''momentum'', 15 / 100), (''diversity'', 10 / 100), (''youth'', 10 / 100)]"
  "mergedEntries DEFAULT_WEIGHTS [(''growth'', -1)] =
     [(''growth'', -1), (''attendance'', 20 / 100), (''retention'', 20 / 100),
      (''momentum'', 15 / 100), (''diversity'', 10 / 100), (''youth'', 10 / 100)]"
  "mergedEntries DEFAULT_BREAKPOINTS [] = DEFAULT_BREAKPOINTS"
  by (simp_all add: mergedEntries_def DEFAULT_WEIGHTS_def DEFAULT_BREAKPOINTS_def)

theorem health_composite_witness:
  "composite_score (computeHealthScore sampleInput 1 [(''growth'', 3 / 10), (''youth'', 5 / 100)] [])
     = Some (151 / 2) \<and>
   band (computeHealthScore sampleInput 1 [(''growth'', 3 / 10), (''youth'', 5 / 100)] []) = healthy \<and>
   composite_score (computeHealthScore sampleInput 1 [] []) = Some (297 / 4) \<and>
   band (computeHealthScore sampleInput 1 [] []) = healthy \<and>
   composite_score (computeHealthScore sampleInput 1 [(''growth'', 2)] []) = Some 100 \<and>
   band (computeHealthScore sampleInput 1 [(''growth'', 2)] []) = thriving \<and>
   composite_score (computeHealthScore sampleInput 1 [(''growth'', -1)] []) = Some 0 \<and>
   band (computeHealthScore sampleInput 1 [(''growth'', -1)] []) = critical \<and>
   composite_score (computeHealthScore sampleInput 1 [] [(''youth'', [(0, 100)])]) = Some (317 / 4) \<and>
   band (computeHealthScore sampleInput 1 [] [(''youth'', [(0, 100)])]) = healthy"
proof -
  have k1: "fst ` set [(''growth'', 3 / 10 :: real), (''youth'', 5 / 100)] \<subseteq> componentNames"
    by (simp add: componentNames_def)
  have k0: "fst ` set ([] :: (string \<times> real) list) \<subseteq> componentNames" by simp
  have k2: "fst ` set [(''growth'', 2 :: real)] \<subseteq> componentNames"
    by (simp add: componentNames_def)
  have k3: "fst ` set [(''growth'', - 1 :: real)] \<subseteq> componentNames"
    by (simp add: componentNames_def)
  have S1: "(\<Sum>(k, w)\<leftarrow>mergedEntries DEFAULT_WEIGHTS [(''growth'', 3 / 10), (''youth'', 5 / 100)].
              componentScoreOf sampleInput (mergedEntries DEFAULT_BREAKPOINTS []) k * w) = 75497 / 1000"
    unfolding sample_merged_weights by (simp add: sample_scores)
  have S0: "(\<Sum>(k, w)\<leftarrow>mergedEntries DEFAULT_WEIGHTS [].
              componentScoreOf sampleInput (mergedEntries DEFAULT_BREAKPOINTS []) k * w) = 74247 / 1000"
    unfolding sample_merged_weights by (simp add: DEFAULT_WEIGHTS_def sample_scores)
  have S2: "(\<Sum>(k, w)\<leftarrow>mergedEntries DEFAULT_WEIGHTS [(''growth'', 2)].
              componentScoreOf sampleInput (mergedEntries DEFAULT_BREAKPOINTS []) k * w) = 205497 / 1000"
    unfolding sample_merged_weights by (simp add: sample_scores)
  have S3: "(\<Sum>(k, w)\<leftarrow>mergedEntries DEFAULT_WEIGHTS [(''growth'', -1)].
              componentScoreOf sampleInput (mergedEntries DEFAULT_BREAKPOINTS []) k * w) = - 19503 / 1000"
    unfolding sample_merged_weights by (simp add: sample_scores)
  have S4: "(\<Sum>(k, w)\<leftarrow>mergedEntries DEFAULT_WEIGHTS [].
              componentScoreOf sampleInput (mergedEntries DEFAULT_BREAKPOINTS [(''youth'', [(0, 100)])]) k * w)
            = 79247 / 1000"
    unfolding sample_merged_weights(2)
    by (simp add: DEFAULT_WEIGHTS_def sample_scores_youth_override)
  have "composite_score (computeHealthScore sampleInput 1 [(''growth'', 3 / 10), (''youth'', 5 / 100)] [])
     = Some (151 / 2) \<and>
   band (computeHealthScore sampleInput 1 [(''growth'', 3 / 10), (''youth'', 5 / 100)] []) = healthy"
    using health_composite[OF k1 refl refl refl S1[symmetric], of 1] by simp
  moreover have "composite_score (computeHealthScore sampleInput 1 [] []) = Some (297 / 4) \<and>
   band (computeHealthScore sampleInput 1 [] []) = healthy"
    using health_composite[OF k0 refl refl refl S0[symmetric], of 1] by simp
  moreover have "composite_score (computeHealthScore sampleInput 1 [(''growth'', 2)] []) = Some 100 \<and>
   band (computeHealthScore sampleInput 1 [(''growth'', 2)] []) = thriving"
    using health_composite[OF k2 refl refl refl S2[symmetric], of 1] by simp
  moreover have "composite_score (computeHealthScore sampleInput 1 [(''growth'', -1)] []) = Some 0 \<and>
   band (computeHealthScore sampleInput 1 [(''growth'', -1)] []) = critical"
    using health_composite[OF k3 refl refl refl S3[symmetric], of 1] by simp
  moreover have
    "composite_score (computeHealthScore sampleInput 1 [] [(''youth'', [(0, 100)])]) = Some (317 / 4) \<and>
     band (computeHealthScore sampleInput 1 [] [(''youth'', [(0, 100)])]) = healthy"
    using health_composite[OF k0 refl refl refl S4[symmetric], of 1] by simp
  ultimately show ?thesis by blast
qed

lemma sensitivity_eq:
  "sensitivity (computeHealthScore input v cw cb) =
     sensitivityOf (deltas (map_of (componentScores input (spread DEFAULT_BREAKPOINTS cb)))
                      (spread DEFAULT_WEIGHTS cw))"
  by (simp add: computeHealthScore_def Let_def)

lemma fold_total_None: "fold (\<lambda>(k, d) sum. lift2 (+) sum d) ds None = None"
  by (induction ds) auto

lemma fold_total_Some:
  "fold (\<lambda>(k, d) sum. lift2 (+) sum d) ds (Some a) = Some t \<Longrightarrow>
   \<exists>vals. map snd ds = map Some vals \<and> t = a + sum_list vals"
proof (induction ds arbitrary: a)
  case Nil
  then show ?case by simp
next
  case (Cons x ds)
  obtain k d where x: "x = (k, d)" by (cases x)
  show ?case
  proof (cases d)
    case None
    with Cons.prems x show ?thesis by (simp add: fold_total_None)
  next
    case (Some v)
    with Cons.prems x have "fold (\<lambda>(k, d) sum. lift2 (+) sum d) ds (Some (a + v)) = Some t"
      by simp
    from Cons.IH[OF this] obtain vals where "map snd ds = map Some vals" "t = a + v + sum_list vals"
      by blast
    then have "map snd (x # ds) = map Some (v # vals) \<and> t = a + sum_list (v # vals)"
      by (simp add: x Some)
    then show ?thesis by blast
  qed
qed

lemma totalDelta_Some:
  "totalDelta ds = Some t \<Longrightarrow> \<exists>vals. map snd ds = map Some vals \<and> t = sum_list vals"
  using fold_total_Some[of ds 0 t] by (simp add: totalDelta_def)

lemma sumValues_Some: "map snd xs = map Some ys \<Longrightarrow> sumValues xs = Some (sum_list ys)"
proof (induction xs arbitrary: ys)
  case Nil
  then show ?case by (simp add: sumValues_def)
next
  case (Cons x xs)
  then obtain y ys' where ys: "ys = y # ys'" "snd x = Some y" "map snd xs = map Some ys'"
    by (cases ys) auto
  from Cons.IH[OF ys(3)] have "sumValues xs = Some (sum_list ys')" .
  then show ?case using ys by (cases x) (simp add: sumValues_def)
qed

lemma sum_round2_error:
  "\<bar>(\<Sum>d\<leftarrow>vals. round2 (f d)) - (\<Sum>d\<leftarrow>vals. f d)\<bar> \<le> real (length vals) / 200"
proof (induction vals)
  case Nil
  show ?case by simp
next
  case (Cons v vals)
  define a b where "a = round2 (f v) - f v"
    and "b = (\<Sum>d\<leftarrow>vals. round2 (f d)) - (\<Sum>d\<leftarrow>vals. f d)"
  have a: "\<bar>a\<bar> \<le> 1 / 200" unfolding a_def by (rule round2_error)
  have b: "\<bar>b\<bar> \<le> real (length vals) / 200" unfolding b_def by (rule Cons.IH)
  have "\<bar>a + b\<bar> \<le> \<bar>a\<bar> + \<bar>b\<bar>" by (rule abs_triangle_ineq)
  also have "\<dots> \<le> 1 / 200 + real (length vals) / 200" by (rule add_mono[OF a b])
  also have "\<dots> = (1 + real (length vals)) / 200" by (simp add: add_divide_distrib)
  finally have "\<bar>a + b\<bar> \<le> (1 + real (length vals)) / 200" .
  moreover have "(\<Sum>d\<leftarrow>v # vals. round2 (f d)) - (\<Sum>d\<leftarrow>v # vals. f d) = a + b"
    by (simp add: a_def b_def)
  ultimately show ?case by simp
qed

lemma sum_share: "t \<noteq> 0 \<Longrightarrow> (\<Sum>d\<leftarrow>vals. d / t * 100) = sum_list vals / t * (100::real)"
  by (induction vals) (simp_all add: field_simps)

lemma sensitivity_values:
  assumes "totalDelta ds = Some t" and "0 < t" and "map snd ds = map Some vals"
  shows "map snd (sensitivityOf ds) = map Some (map (\<lambda>d. round2 (d / t * 100)) vals)"
proof -
  have "map snd (sensitivityOf ds) =
      map (\<lambda>d. map_option round2 (lift2 (*) (lift2 (/) d (Some t)) (Some 100))) (map snd ds)"
    using assms(1,2) by (simp add: sensitivityOf_def gt0_def split_beta)
  then show ?thesis by (simp add: assms(3))
qed

lemma sensitivity_sum:
  assumes "totalDelta ds = Some t" and "0 < t"
  shows "\<exists>sm. sumValues (sensitivityOf ds) = Some sm \<and> \<bar>sm - 100\<bar> \<le> real (length ds) / 200"
proof -
  from totalDelta_Some[OF assms(1)] obtain vals
    where vals: "map snd ds = map Some vals" "t = sum_list vals" by blast
  have len: "length vals = length ds" using vals(1) by (metis length_map)
  let ?f = "\<lambda>d. d / t * 100"
  have s: "sumValues (sensitivityOf ds) = Some (\<Sum>d\<leftarrow>vals. round2 (?f d))"
    by (rule sumValues_Some) (simp add: sensitivity_values[OF assms vals(1)])
  have "t \<noteq> 0" using assms(2) by simp
  then have "(\<Sum>d\<leftarrow>vals. ?f d) = sum_list vals / t * 100" by (rule sum_share)
  also have "\<dots> = 100" using \<open>t \<noteq> 0\<close> by (simp add: vals(2)[symmetric])
  finally have "(\<Sum>d\<leftarrow>vals. ?f d) = 100" .
  with sum_round2_error[of ?f vals]
  have "\<bar>(\<Sum>d\<leftarrow>vals. round2 (?f d)) - 100\<bar> \<le> real (length ds) / 200"
    by (simp add: len)
  with s show ?thesis by blast
qed

lemma sum_zero_weights:
  "\<forall>(k, w) \<in> set ws. w = 0 \<Longrightarrow> (\<Sum>(k, w)\<leftarrow>ws. g k * w) = (0::real)"
  by (induction ws) auto

lemma nudgeUp_known:
  "s k = Some (f k) \<Longrightarrow>
   nudgeUp s key k = Some (if k = key then min 100 (f k + 10) else f k)"
  by (auto simp add: nudgeUp_def)

lemma nudgeDown_known:
  "s k = Some (f k) \<Longrightarrow>
   nudgeDown s key k = Some (if k = key then max 0 (f k - 10) else f k)"
  by (auto simp add: nudgeDown_def)

lemma deltas_zero_weights:
  assumes "\<forall>k \<in> fst ` set ws. s k = Some (f k)" and "\<forall>(k, w) \<in> set ws. w = 0"
  shows "deltas s ws = map (\<lambda>(k, w). (k, Some 0)) ws"
proof -
  have "weighted (nudgeUp s key) ws = Some 0" for key
    using weighted_known[of ws "nudgeUp s key" "\<lambda>k. if k = key then min 100 (f k + 10) else f k"]
      assms by (simp add: nudgeUp_known sum_zero_weights)
  moreover have "weighted (nudgeDown s key) ws = Some 0" for key
    using weighted_known[of ws "nudgeDown s key" "\<lambda>k. if k = key then max 0 (f k - 10) else f k"]
      assms by (simp add: nudgeDown_known sum_zero_weights)
  ultimately show ?thesis by (simp add: deltas_def)
qed

lemma totalDelta_zeros: "totalDelta (map (\<lambda>(k, w). (k, Some 0)) ws) = Some 0"
proof -
  have "fold (\<lambda>(k, d) sum. lift2 (+) sum d) (map (\<lambda>(k, w). (k, Some 0)) ws) (Some a) = Some a" for a
    by (induction ws) auto
  then show ?thesis by (simp add: totalDelta_def)
qed

lemma deltas_unknown:
  assumes "(k0, w0) \<in> set ws" and "s k0 = None"
  shows "deltas s ws = map (\<lambda>(k, w). (k, None)) ws"
proof -
  have "nudgeUp s key k0 = None" "nudgeDown s key k0 = None" for key
    using assms(2) by (auto simp add: nudgeUp_def nudgeDown_def)
  then have "weighted (nudgeUp s key) ws = None" for key
    using weighted_unknown[OF assms(1)] by simp
  then show ?thesis by (simp add: deltas_def)
qed

lemma totalDelta_NaNs: "ws \<noteq> [] \<Longrightarrow> totalDelta (map (\<lambda>(k, w). (k, None)) ws) = None"
  by (cases ws) (auto simp add: totalDelta_def fold_total_None)

lemma totalDelta_not_positive:
  assumes "\<forall>(k, w) \<in> set ws. w = 0"
  shows "\<not> gt0 (totalDelta (deltas s ws))"
proof (cases "\<forall>k \<in> fst ` set ws. s k \<noteq> None")
  case True
  then have "\<forall>k \<in> fst ` set ws. s k = Some (the (s k))" by simp
  from deltas_zero_weights[OF this assms] show ?thesis
    by (simp add: totalDelta_zeros gt0_def)
next
  case False
  then obtain k0 w0 where k: "(k0, w0) \<in> set ws" "s k0 = None" by auto
  then have "ws \<noteq> []" by auto
  with deltas_unknown[of k0 w0 ws s] k show ?thesis by (simp add: totalDelta_NaNs gt0_def)
qed

lemma sensitivity_all_zero:
  "\<not> gt0 (totalDelta ds) \<Longrightarrow> \<forall>(k, v) \<in> set (sensitivityOf ds). v = Some 0"
  by (auto simp add: sensitivityOf_def)

lemma sensitivity_keys: "map fst (sensitivityOf (deltas s ws)) = map fst ws"
  by (simp add: sensitivityOf_def deltas_def split_beta comp_def)

lemma length_deltas: "length (deltas s ws) = length ws"
  by (simp add: deltas_def)

text \<open>
  C8, as stated, fails in its second half.  With every weight 0 and one of them under a
  key that is no component, each recomputed composite is NaN, and so is the total delta:
  it is not 0.
\<close>

theorem health_sensitivity_counterexample:
  "allZero (spread DEFAULT_WEIGHTS zeroWithExtra) \<and>
   totalDelta (deltas (map_of (componentScores sampleInput (spread DEFAULT_BREAKPOINTS [])))
                 (spread DEFAULT_WEIGHTS zeroWithExtra)) = None \<and>
   totalDelta (deltas (map_of (componentScores sampleInput (spread DEFAULT_BREAKPOINTS [])))
                 (spread DEFAULT_WEIGHTS zeroWithExtra)) \<noteq> Some 0"
proof -
  have w: "spread DEFAULT_WEIGHTS zeroWithExtra = zeroWithExtra"
    by (simp add: spread_def DEFAULT_WEIGHTS_def zeroWithExtra_def)
  have z: "allZero zeroWithExtra" by (simp add: allZero_def zeroWithExtra_def)
  have m: "(''foo'', 0) \<in> set zeroWithExtra" by (simp add: zeroWithExtra_def)
  have u: "map_of (componentScores sampleInput (spread DEFAULT_BREAKPOINTS [])) ''foo'' = None"
    by (rule component_unknown) (simp add: componentNames_def)
  have "zeroWithExtra \<noteq> []" by (simp add: zeroWithExtra_def)
  then have "totalDelta (deltas (map_of (componentScores sampleInput (spread DEFAULT_BREAKPOINTS [])))
                 zeroWithExtra) = None"
    using deltas_unknown[of "''foo''" 0 zeroWithExtra
        "map_of (componentScores sampleInput (spread DEFAULT_BREAKPOINTS []))"] m u
    by (simp add: totalDelta_NaNs)
  with z show ?thesis by (simp add: w)
qed

text \<open>
  C8, amended.  The sensitivity map has the keys of the merged weights.  When the total
  delta is positive its values sum to 100 within 0.005 for each key, the error of a
  rounding to 2 decimals.  When every weight is 0 every sensitivity value is 0; the total
  delta is then 0 provided the keys of the weight overrides are among the six component
  names.
\<close>

theorem health_sensitivity:
  assumes "weights = spread DEFAULT_WEIGHTS customWeights"
    and "scores = map_of (componentScores input (spread DEFAULT_BREAKPOINTS customBreakpoints))"
    and "r = computeHealthScore input version customWeights customBreakpoints"
    and "delta_total = totalDelta (deltas scores weights)"
  shows "map fst (sensitivity r) = map fst weights \<and>
         (gt0 delta_total \<longrightarrow>
            (\<exists>sm. sumValues (sensitivity r) = Some sm \<and>
                   \<bar>sm - 100\<bar> \<le> real (length weights) / 200)) \<and>
         (allZero weights \<longrightarrow>
            (\<forall>(k, v) \<in> set (sensitivity r). v = Some 0) \<and>
            (fst ` set customWeights \<subseteq> componentNames \<longrightarrow> delta_total = Some 0))"
proof -
  have s: "sensitivity r = sensitivityOf (deltas scores weights)"
    by (simp add: assms(1,2,3) sensitivity_eq)
  have k: "map fst (sensitivity r) = map fst weights"
    by (simp add: s sensitivity_keys)
  have p: "\<exists>sm. sumValues (sensitivity r) = Some sm \<and> \<bar>sm - 100\<bar> \<le> real (length weights) / 200"
    if "gt0 delta_total"
  proof -
    from that obtain t where t: "delta_total = Some t" "0 < t"
      by (auto simp add: gt0_def split: option.splits)
    from sensitivity_sum[of "deltas scores weights" t] t assms(4)
    show ?thesis by (simp add: s length_deltas)
  qed
  have z1: "\<forall>(k, v) \<in> set (sensitivity r). v = Some 0" if "allZero weights"
  proof -
    from that have "\<forall>(k, w) \<in> set weights. w = 0" by (simp add: allZero_def list_all_iff)
    from totalDelta_not_positive[OF this] show ?thesis
      unfolding s by (rule sensitivity_all_zero)
  qed
  have z2: "delta_total = Some 0" if "allZero weights" and "fst ` set customWeights \<subseteq> componentNames"
  proof -
    from that(1) have zero: "\<forall>(k, w) \<in> set weights. w = 0" by (simp add: allZero_def list_all_iff)
    have "\<forall>k \<in> fst ` set weights. scores k =
        Some (componentScoreOf input (spread DEFAULT_BREAKPOINTS customBreakpoints) k)"
      by (simp add: assms(1,2) merged_keys_known[OF that(2)] component_known)
    from deltas_zero_weights[OF this zero] show ?thesis
      by (simp add: assms(4) totalDelta_zeros)
  qed
  show ?thesis using k p z1 z2 by blast
qed

lemma sample_component_scores:
  "componentScores sampleInput DEFAULT_BREAKPOINTS =
     [(''growth'', 75), (''attendance'', 85), (''retention'', 85), (''momentum'', 200 / 3),
      (''diversity'', 6497 / 100), (''youth'', 50)]"
  by (simp add: componentScores_def sampleInput_def DEFAULT_BREAKPOINTS_def
        breakpointsOf_def growthRaw_def momentumRaw_def diversityRaw_def interpolate_def clamp_def
        Let_def)

lemma sample_total:
  "totalDelta (deltas (map_of (componentScores sampleInput DEFAULT_BREAKPOINTS)) DEFAULT_WEIGHTS) = Some 20"
  unfolding sample_component_scores
  by (simp add: totalDelta_def deltas_def weighted_def nudgeUp_def nudgeDown_def DEFAULT_WEIGHTS_def)

theorem health_sensitivity_witness:
  "gt0 (totalDelta (deltas (map_of (componentScores sampleInput (spread DEFAULT_BREAKPOINTS [])))
                      (spread DEFAULT_WEIGHTS []))) \<and>
   (\<exists>sm. sumValues (sensitivity (computeHealthScore sampleInput 1 [] [])) = Some sm \<and>
          \<bar>sm - 100\<bar> \<le> 6 / 200) \<and>
   allZero (spread DEFAULT_WEIGHTS zeroWeights) \<and>
   totalDelta (deltas (map_of (componentScores sampleInput (spread DEFAULT_BREAKPOINTS [])))
                 (spread DEFAULT_WEIGHTS zeroWeights)) = Some 0 \<and>
   list_all (\<lambda>(k, v). v = Some 0) (sensitivity (computeHealthScore sampleInput 1 zeroWeights []))"
proof -
  have b: "spread DEFAULT_BREAKPOINTS [] = DEFAULT_BREAKPOINTS" by (simp add: spread_def)
  have w0: "spread DEFAULT_WEIGHTS [] = DEFAULT_WEIGHTS" by (simp add: spread_def)
  have wz: "spread DEFAULT_WEIGHTS zeroWeights = zeroWeights"
    by (simp add: spread_def DEFAULT_WEIGHTS_def zeroWeights_def)
  have g: "gt0 (totalDelta (deltas (map_of (componentScores sampleInput (spread DEFAULT_BREAKPOINTS [])))
                      (spread DEFAULT_WEIGHTS [])))"
    by (simp add: b w0 sample_total gt0_def)
  have "allZero zeroWeights" by (simp add: allZero_def zeroWeights_def)
  then have z: "allZero (spread DEFAULT_WEIGHTS zeroWeights)" by (simp only: wz)
  have k: "fst ` set zeroWeights \<subseteq> componentNames"
    by (simp add: zeroWeights_def componentNames_def)
  have n: "length (spread DEFAULT_WEIGHTS []) = 6" by (simp add: spread_def DEFAULT_WEIGHTS_def)
  from health_sensitivity[where input = sampleInput and customWeights = "[]" and version = 1
      and customBreakpoints = "[]", OF refl refl refl refl] g n
  have A: "\<exists>sm. sumValues (sensitivity (computeHealthScore sampleInput 1 [] [])) = Some sm \<and>
          \<bar>sm - 100\<bar> \<le> 6 / 200"
    by simp
  from health_sensitivity[where input = sampleInput and customWeights = zeroWeights and version = 1
      and customBreakpoints = "[]", OF refl refl refl refl] z k
  have B: "totalDelta (deltas (map_of (componentScores sampleInput (spread DEFAULT_BREAKPOINTS [])))
                 (spread DEFAULT_WEIGHTS zeroWeights)) = Some 0 \<and>
     list_all (\<lambda>(k, v). v = Some 0) (sensitivity (computeHealthScore sampleInput 1 zeroWeights []))"
    by (simp add: list_all_iff)
  show ?thesis using g A z B by blast
qed

section \<open>Properties of the calibration\<close>







end
